theory Spec2Isabelle
  imports Main "HOL-Library.Word" "HOL-Library.AList"
begin

section \<open>Python strings\<close>

text \<open>
  A Python \<open>str\<close> is modelled as a \<open>string\<close>: a list of characters, each one code point.
  HOL characters are 8 bits wide, so the model covers text whose code points lie in
  U+0000..U+00FF; on that range \<open>str.isspace\<close>, \<open>str.lower\<close> and the regular expression
  classes \<open>\s\<close> and \<open>\d\<close> are finite tables and are written out in full.
\<close>

definition isspace :: "char \<Rightarrow> bool" where
  "isspace c = (let n = (of_char c :: nat)
                in (9 \<le> n \<and> n \<le> 13) \<or> (28 \<le> n \<and> n \<le> 32) \<or> n = 133 \<or> n = 160)"

definition isdigit :: "char \<Rightarrow> bool" where
  "isdigit c = (let n = (of_char c :: nat) in 48 \<le> n \<and> n \<le> 57)"

definition lstrip :: "string \<Rightarrow> string" where
  "lstrip s = dropWhile isspace s"

definition rstrip :: "string \<Rightarrow> string" where
  "rstrip s = rev (dropWhile isspace (rev s))"

definition strip :: "string \<Rightarrow> string" where
  "strip s = lstrip (rstrip s)"

definition lstrip_char :: "char \<Rightarrow> string \<Rightarrow> string" where
  "lstrip_char c s = dropWhile (\<lambda>x. x = c) s"

definition startswith :: "string \<Rightarrow> string \<Rightarrow> bool" where
  "startswith s p = (take (length p) s = p)"

definition endswith :: "string \<Rightarrow> string \<Rightarrow> bool" where
  "endswith s p = (length p \<le> length s \<and> drop (length s - length p) s = p)"

text \<open>\<open>p in s\<close> for strings: \<open>p\<close> occurs in \<open>s\<close> as a contiguous substring.\<close>

fun contains :: "string \<Rightarrow> string \<Rightarrow> bool" where
  "contains [] p = (p = [])"
| "contains (c # cs) p = (startswith (c # cs) p \<or> contains cs p)"

text \<open>\<open>s.find(p)\<close>: the lowest index at which \<open>p\<close> occurs, \<open>None\<close> for Python's \<open>-1\<close>.\<close>

fun find :: "string \<Rightarrow> string \<Rightarrow> nat option" where
  "find [] p = (if p = [] then Some 0 else None)"
| "find (c # cs) p =
     (if startswith (c # cs) p then Some 0 else map_option Suc (find cs p))"

text \<open>\<open>s.find(p, start)\<close> for \<open>start\<close> not beyond the end of \<open>s\<close>.\<close>

definition find_from :: "string \<Rightarrow> string \<Rightarrow> nat \<Rightarrow> nat option" where
  "find_from s p start =
     (if length s < start then None
      else map_option (\<lambda>i. i + start) (find (drop start s) p))"

text \<open>\<open>s.rfind(c)\<close> for a single character: the highest index holding \<open>c\<close>.\<close>

definition rfind :: "string \<Rightarrow> char \<Rightarrow> nat option" where
  "rfind s c =
     (if c \<in> set s
      then Some (length s - 1 - length (takeWhile (\<lambda>x. x \<noteq> c) (rev s)))
      else None)"

text \<open>\<open>s.split(sep)\<close> for a one-character separator.\<close>

fun split :: "string \<Rightarrow> char \<Rightarrow> string list" where
  "split [] sep = [[]]"
| "split (c # cs) sep =
     (if c = sep then [] # split cs sep
      else (case split cs sep of
              [] \<Rightarrow> [[c]]
            | w # ws \<Rightarrow> (c # w) # ws))"

text \<open>\<open>sep.join(xs)\<close>.\<close>

fun join :: "string \<Rightarrow> string list \<Rightarrow> string" where
  "join sep [] = []"
| "join sep [x] = x"
| "join sep (x # y # zs) = x @ sep @ join sep (y # zs)"

definition lower_char :: "char \<Rightarrow> char" where
  "lower_char c = (let n = (of_char c :: nat)
                   in if (65 \<le> n \<and> n \<le> 90) \<or> (192 \<le> n \<and> n \<le> 222 \<and> n \<noteq> 215)
                      then char_of (n + 32) else c)"

definition lower :: "string \<Rightarrow> string" where
  "lower s = map lower_char s"

definition replace_char :: "string \<Rightarrow> char \<Rightarrow> char \<Rightarrow> string" where
  "replace_char s a b = map (\<lambda>c. if c = a then b else c) s"

text \<open>\<open>str(n)\<close> for a non-negative integer: its decimal digits.\<close>

definition digit_char :: "nat \<Rightarrow> char" where
  "digit_char d = ''0123456789'' ! d"

fun str_nat :: "nat \<Rightarrow> string" where
  "str_nat n = (if n < 10 then [digit_char n] else str_nat (n div 10) @ [digit_char (n mod 10)])"

declare str_nat.simps [simp del]

text \<open>\<open>xs[1:-1]\<close>: the list without its first and its last element.\<close>

definition slice_1_m1 :: "'a list \<Rightarrow> 'a list" where
  "slice_1_m1 xs = butlast (tl xs)"


section \<open>Errors\<close>

text \<open>The Python exceptions that the modelled code can raise.\<close>

datatype error = ValueError | TypeError | AttributeError | IndexError | EOFError


section \<open>Paths and the file system\<close>

text \<open>
  A \<open>pathlib.Path\<close> is its directory part and its final component \<open>name\<close>;
  \<open>str(path)\<close> is their concatenation. \<open>suffix\<close>, \<open>stem\<close> and \<open>with_suffix\<close> follow
  pathlib: the suffix starts at the last dot of the name, unless that dot is the first or
  the last character.
\<close>

datatype path = Path (parent: string) (name: string)

definition str_path :: "path \<Rightarrow> string" where
  "str_path p = parent p @ name p"

definition suffix :: "path \<Rightarrow> string" where
  "suffix p =
     (case rfind (name p) (CHR ''.'') of
        None \<Rightarrow> []
      | Some i \<Rightarrow> if 0 < i \<and> i + 1 < length (name p) then drop i (name p) else [])"

definition stem :: "path \<Rightarrow> string" where
  "stem p =
     (case rfind (name p) (CHR ''.'') of
        None \<Rightarrow> name p
      | Some i \<Rightarrow> if 0 < i \<and> i + 1 < length (name p) then take i (name p) else name p)"

definition with_suffix :: "path \<Rightarrow> string \<Rightarrow> error + path" where
  "with_suffix p sfx =
     (if CHR ''/'' \<in> set sfx then Inl ValueError
      else if (sfx \<noteq> [] \<and> \<not> startswith sfx ''.'') \<or> sfx = ''.'' then Inl ValueError
      else if name p = [] then Inl ValueError
      else if suffix p = [] then Inr (Path (parent p) (name p @ sfx))
      else Inr (Path (parent p) (take (length (name p) - length (suffix p)) (name p) @ sfx)))"

text \<open>
  The file system holds regular, readable files: a finite table from paths to their
  bytes. Writing a file puts its entry in front, which shadows an older one.
\<close>

type_synonym byte = "8 word"

type_synonym filesystem = "(path \<times> byte list) list"

definition exists :: "filesystem \<Rightarrow> path \<Rightarrow> bool" where
  "exists fs p = (map_of fs p \<noteq> None)"

definition write_file :: "filesystem \<Rightarrow> path \<Rightarrow> byte list \<Rightarrow> filesystem" where
  "write_file fs p bs = (p, bs) # fs"


section \<open>Hashing and collision detection\<close>

text \<open>
  \<open>hashlib.sha256\<close> is an external collaborator. A hash object is modelled by the bytes
  fed to it so far; \<open>hexdigest\<close> applies the digest function \<open>H\<close> (SHA-256 rendered as
  hexadecimal text) to them. \<open>H\<close> is a parameter of everything that hashes.
\<close>

type_synonym hasher = "byte list"

definition sha256_new :: hasher where
  "sha256_new = []"

definition update :: "hasher \<Rightarrow> byte list \<Rightarrow> hasher" where
  "update h block = h @ block"

definition hexdigest :: "(byte list \<Rightarrow> string) \<Rightarrow> hasher \<Rightarrow> string" where
  "hexdigest H h = H h"

text \<open>
  \<open>iter(lambda: f.read(4096), b"")\<close>: the blocks read from an open file whose unread
  bytes are \<open>bs\<close>, up to the first empty read.
\<close>

function read_blocks :: "byte list \<Rightarrow> byte list list" where
  "read_blocks bs =
     (let byte_block = take 4096 bs
      in if byte_block = [] then [] else byte_block # read_blocks (drop 4096 bs))"
  by pat_completeness auto
termination
  by (relation "measure length") auto

declare read_blocks.simps [simp del]

definition calculate_file_hash :: "(byte list \<Rightarrow> string) \<Rightarrow> filesystem \<Rightarrow> path \<Rightarrow> string" where
  "calculate_file_hash H fs file_path =
     (case map_of fs file_path of
        None \<Rightarrow> []
      | Some bs \<Rightarrow> hexdigest H (foldl update sha256_new (read_blocks bs)))"

definition detect_conversion_collision ::
  "(byte list \<Rightarrow> string) \<Rightarrow> filesystem \<Rightarrow> path \<Rightarrow> path \<Rightarrow> bool" where
  "detect_conversion_collision H fs source_file target_file =
     (if \<not> exists fs target_file then False
      else if stem source_file = stem target_file
           then calculate_file_hash H fs source_file \<noteq> calculate_file_hash H fs target_file
           else False)"


text \<open>
  The same two functions with the file operations that they perform, in order:
  \<open>Path.exists\<close> is \<open>Stat\<close>, opening a file and reading it to the end is \<open>ReadFile\<close>;
  \<open>shutil.copy2\<close> and opening a file for writing, which other parts of the program use,
  are \<open>CopyFile\<close> and \<open>WriteFile\<close>. An operation \<open>modifies\<close> when it changes the file
  system.
\<close>

datatype file_operation = Stat path | ReadFile path | CopyFile path path | WriteFile path

fun modifies :: "file_operation \<Rightarrow> bool" where
  "modifies (Stat p) = False"
| "modifies (ReadFile p) = False"
| "modifies (CopyFile p q) = True"
| "modifies (WriteFile p) = True"

definition calculate_file_hash_run ::
  "(byte list \<Rightarrow> string) \<Rightarrow> filesystem \<Rightarrow> path \<Rightarrow> file_operation list \<times> string" where
  "calculate_file_hash_run H fs file_path =
     (case map_of fs file_path of
        None \<Rightarrow> ([Stat file_path], [])
      | Some bs \<Rightarrow>
          ([Stat file_path, ReadFile file_path],
           hexdigest H (foldl update sha256_new (read_blocks bs))))"

definition detect_conversion_collision_run ::
  "(byte list \<Rightarrow> string) \<Rightarrow> filesystem \<Rightarrow> path \<Rightarrow> path \<Rightarrow> file_operation list \<times> bool" where
  "detect_conversion_collision_run H fs source_file target_file =
     (if \<not> exists fs target_file then ([Stat target_file], False)
      else if stem source_file = stem target_file
           then (let (ops1, source_hash) = calculate_file_hash_run H fs source_file;
                     (ops2, target_hash) = calculate_file_hash_run H fs target_file
                 in (Stat target_file # ops1 @ ops2, source_hash \<noteq> target_hash))
           else ([Stat target_file], False))"


section \<open>Backups and the safety check\<close>

text \<open>
  \<open>SafetyConfig\<close>. The field \<open>create_backup\<close> of the source is \<open>create_backup_opt\<close>
  here, since the method of the same name is modelled below.
\<close>

record safety_config =
  require_confirmation :: bool
  create_backup_opt :: bool
  check_hash :: bool
  prevent_overwrite :: bool
  backup_suffix :: string

definition SafetyConfig :: safety_config where
  "SafetyConfig = \<lparr> require_confirmation = True, create_backup_opt = True,
                     check_hash = True, prevent_overwrite = True,
                     backup_suffix = ''.backup'' \<rparr>"

text \<open>
  The numbered candidate of the loop in \<open>create_backup\<close>:
  \<open>file_path.with_suffix(f"{file_path.suffix}{backup_suffix}.{counter}")\<close>.
\<close>

definition numbered_backup :: "safety_config \<Rightarrow> path \<Rightarrow> nat \<Rightarrow> error + path" where
  "numbered_backup cfg file_path counter =
     with_suffix file_path (suffix file_path @ backup_suffix cfg @ ''.'' @ str_nat counter)"

text \<open>Decimal numerals are read back by \<open>nat_of_str\<close>, so \<open>str_nat\<close> is injective.\<close>

definition nat_of_str :: "string \<Rightarrow> nat" where
  "nat_of_str s = foldl (\<lambda>a c. 10 * a + (of_char c - 48)) 0 s"

lemma of_char_digit_char: "d < 10 \<Longrightarrow> (of_char (digit_char d) :: nat) = 48 + d"
proof -
  assume "d < 10"
  then have "d = 0 \<or> d = 1 \<or> d = 2 \<or> d = 3 \<or> d = 4 \<or> d = 5 \<or> d = 6 \<or> d = 7 \<or> d = 8 \<or> d = 9"
    by arith
  then show ?thesis
    by (auto simp: digit_char_def)
qed

lemma nat_of_str_str_nat: "nat_of_str (str_nat n) = n"
proof (induction n rule: str_nat.induct)
  case (1 n)
  show ?case
  proof (cases "n < 10")
    case True
    then show ?thesis
      by (subst str_nat.simps) (simp add: nat_of_str_def of_char_digit_char)
  next
    case False
    then have ih: "nat_of_str (str_nat (n div 10)) = n div 10"
      using "1" by simp
    have "nat_of_str (str_nat n) = 10 * nat_of_str (str_nat (n div 10)) + n mod 10"
      using False
      by (subst str_nat.simps) (simp add: nat_of_str_def of_char_digit_char)
    with ih show ?thesis by simp
  qed
qed

lemma str_nat_inject: "str_nat m = str_nat n \<Longrightarrow> m = n"
  by (metis nat_of_str_str_nat)

lemma with_suffix_Inr:
  "with_suffix p sfx = Inr q \<Longrightarrow>
     q = Path (parent p) (take (length (name p) - length (suffix p)) (name p) @ sfx)"
  by (auto simp: with_suffix_def split: if_splits)

lemma numbered_backup_inject:
  assumes "numbered_backup cfg p j = Inr q" and "numbered_backup cfg p k = Inr q"
  shows "j = k"
proof -
  from assms have
    "take (length (name p) - length (suffix p)) (name p)
        @ suffix p @ backup_suffix cfg @ ''.'' @ str_nat j
     = take (length (name p) - length (suffix p)) (name p)
        @ suffix p @ backup_suffix cfg @ ''.'' @ str_nat k"
    unfolding numbered_backup_def by (auto dest!: with_suffix_Inr)
  then have "str_nat j = str_nat k" by simp
  then show ?thesis by (rule str_nat_inject)
qed

lemma finite_numbered_backups:
  "finite {k. \<exists>q. numbered_backup cfg p k = Inr q \<and> exists fs q}"
proof (rule finite_subset)
  show "{k. \<exists>q. numbered_backup cfg p k = Inr q \<and> exists fs q}
          \<subseteq> (\<lambda>q. THE k. numbered_backup cfg p k = Inr q) ` fst ` set fs"
  proof
    fix k
    assume "k \<in> {k. \<exists>q. numbered_backup cfg p k = Inr q \<and> exists fs q}"
    then obtain q where q: "numbered_backup cfg p k = Inr q" "exists fs q" by blast
    from q(2) have "q \<in> fst ` set fs"
      by (auto simp: exists_def dest: map_of_SomeD intro: rev_image_eqI)
    moreover from q(1) have "(THE j. numbered_backup cfg p j = Inr q) = k"
      by (blast intro: the_equality numbered_backup_inject)
    ultimately show "k \<in> (\<lambda>q. THE k. numbered_backup cfg p k = Inr q) ` fst ` set fs"
      by force
  qed
  show "finite ((\<lambda>q. THE k. numbered_backup cfg p k = Inr q) ` fst ` set fs)"
    by simp
qed

text \<open>
  The \<open>while backup_path.exists()\<close> loop of \<open>create_backup\<close>. It ends because the
  numbered candidates are pairwise distinct and the file system holds finitely many
  files.
\<close>

function backup_loop ::
  "safety_config \<Rightarrow> filesystem \<Rightarrow> path \<Rightarrow> nat \<Rightarrow> path \<Rightarrow> error + path" where
  "backup_loop cfg fs file_path counter backup_path =
     (if exists fs backup_path
      then (case numbered_backup cfg file_path counter of
              Inl e \<Rightarrow> Inl e
            | Inr backup_path' \<Rightarrow> backup_loop cfg fs file_path (counter + 1) backup_path')
      else Inr backup_path)"
  by pat_completeness auto
termination
proof (relation "measure (\<lambda>(cfg, fs, p, counter, bp).
          if exists fs bp
          then Suc (card {k. counter \<le> k \<and> (\<exists>q. numbered_backup cfg p k = Inr q \<and> exists fs q)})
          else 0)", goal_cases)
  case 1
  show ?case by simp
next
  case (2 cfg fs p counter bp bp')
  let ?S = "\<lambda>c. {k. c \<le> k \<and> (\<exists>q. numbered_backup cfg p k = Inr q \<and> exists fs q)}"
  have fin: "finite (?S counter)"
    by (rule finite_subset [OF _ finite_numbered_backups [of cfg p fs]]) blast
  show ?case
  proof (cases "exists fs bp'")
    case False
    with 2 show ?thesis by simp
  next
    case True
    with 2 have "counter \<in> ?S counter" by simp
    moreover have "counter \<notin> ?S (counter + 1)" by simp
    moreover have "?S (counter + 1) \<subseteq> ?S counter" by auto
    ultimately have "?S (counter + 1) \<subset> ?S counter" by blast
    with fin have "card (?S (counter + 1)) < card (?S counter)"
      by (rule psubset_card_mono)
    with 2 True show ?thesis by simp
  qed
qed

declare backup_loop.simps [simp del]

text \<open>
  \<open>shutil.copy2\<close> on the modelled file system: the target gets the bytes of the source.
  It fails (\<open>None\<close>, an exception in the source) when the source cannot be read.
\<close>

definition copy2 :: "filesystem \<Rightarrow> path \<Rightarrow> path \<Rightarrow> filesystem option" where
  "copy2 fs src dst =
     (case map_of fs src of
        None \<Rightarrow> None
      | Some bs \<Rightarrow> Some (write_file fs dst bs))"

definition create_backup ::
  "safety_config \<Rightarrow> filesystem \<Rightarrow> path \<Rightarrow> error + (filesystem \<times> path option)" where
  "create_backup cfg fs file_path =
     (if \<not> exists fs file_path then Inr (fs, None)
      else (case with_suffix file_path (suffix file_path @ backup_suffix cfg) of
              Inl e \<Rightarrow> Inl e
            | Inr first_path \<Rightarrow>
                (case backup_loop cfg fs file_path 1 first_path of
                   Inl e \<Rightarrow> Inl e
                 | Inr backup_path \<Rightarrow>
                     (case copy2 fs file_path backup_path of
                        None \<Rightarrow> Inr (fs, None)
                      | Some fs' \<Rightarrow> Inr (fs', Some backup_path)))))"

text \<open>
  \<open>confirm_overwrite\<close>. The line typed at the prompt is the parameter \<open>response\<close>;
  \<open>None\<close> stands for a closed input, on which \<open>input\<close> raises \<open>EOFError\<close>.
\<close>

definition confirm_overwrite :: "safety_config \<Rightarrow> string option \<Rightarrow> error + bool" where
  "confirm_overwrite cfg response =
     (if \<not> require_confirmation cfg then Inr True
      else (case response of
              None \<Rightarrow> Inl EOFError
            | Some r \<Rightarrow> Inr (strip (lower r) \<in> set [''y'', ''yes''])))"

text \<open>
  \<open>safe_write_check\<close> returns the pair \<open>(can_proceed, reason)\<close> of the source, and the
  file system after the backup that it may have made.
\<close>

definition safe_write_check ::
  "(byte list \<Rightarrow> string) \<Rightarrow> safety_config \<Rightarrow> filesystem \<Rightarrow> string option \<Rightarrow> path \<Rightarrow> path
     \<Rightarrow> error + (filesystem \<times> bool \<times> string)" where
  "safe_write_check H cfg fs response source_file target_file =
     (if detect_conversion_collision H fs source_file target_file
      then Inr (fs, False,
                ''Collision detected: '' @ str_path target_file
                  @ '' exists with different content'')
      else if exists fs target_file
      then (case (if prevent_overwrite cfg then confirm_overwrite cfg response else Inr True) of
              Inl e \<Rightarrow> Inl e
            | Inr confirmed \<Rightarrow>
                if \<not> confirmed then Inr (fs, False, ''User cancelled overwrite'')
                else if create_backup_opt cfg
                then (case create_backup cfg fs target_file of
                        Inl e \<Rightarrow> Inl e
                      | Inr (fs', backup_path) \<Rightarrow> Inr (fs', True, ''Safe to proceed''))
                else Inr (fs, True, ''Safe to proceed''))
      else Inr (fs, True, ''Safe to proceed''))"


text \<open>
  The backup names as the specification lists them for the default suffix:
  \<open>file.ext.backup\<close> first, then \<open>file.ext.backup.1\<close>, \<open>file.ext.backup.2\<close>, and so on.
\<close>

definition nth_backup :: "path \<Rightarrow> nat \<Rightarrow> path" where
  "nth_backup p k =
     (if k = 0 then Path (parent p) (name p @ ''.backup'')
      else Path (parent p) (name p @ ''.backup.'' @ str_nat k))"


section \<open>Python values and the metadata record\<close>

text \<open>
  The values that the metadata record holds and that the JSON and YAML decoders return.
  A finite float is \<open>m\<close> times 2 to the power \<open>e\<close> for two integers, which \<open>Finite m e\<close>
  names; the code stores floats and tests them for zero, and never computes with them.
  A dict is an association list in insertion order. The dates, byte strings and sets
  that a YAML document can also hold are left out.
\<close>

datatype pyfloat = Finite int int | Infinite bool | NaN

datatype pyval =
    PNone
  | PBool bool
  | PInt int
  | PFloat pyfloat
  | PStr string
  | PList "pyval list"
  | PDict "(pyval \<times> pyval) list"

text \<open>\<open>xs.append(v)\<close>: an attribute of lists only.\<close>

definition py_append :: "pyval \<Rightarrow> pyval \<Rightarrow> error + pyval" where
  "py_append xs v = (case xs of PList vs \<Rightarrow> Inr (PList (vs @ [v])) | _ \<Rightarrow> Inl AttributeError)"

text \<open>\<open>d[k] = v\<close>: a dict takes any key; a list takes an index in range.\<close>

definition list_setitem :: "pyval list \<Rightarrow> int \<Rightarrow> pyval \<Rightarrow> error + pyval" where
  "list_setitem vs i v =
     (let n = int (length vs)
      in if 0 \<le> i \<and> i < n then Inr (PList (vs[nat i := v]))
         else if - n \<le> i \<and> i < 0 then Inr (PList (vs[nat (i + n) := v]))
         else Inl IndexError)"

definition py_setitem :: "pyval \<Rightarrow> pyval \<Rightarrow> pyval \<Rightarrow> error + pyval" where
  "py_setitem d k v =
     (case d of
        PDict kvs \<Rightarrow> Inr (PDict (AList.update k v kvs))
      | PList vs \<Rightarrow>
          (case k of
             PInt i \<Rightarrow> list_setitem vs i v
           | PBool b \<Rightarrow> list_setitem vs (if b then 1 else 0) v
           | _ \<Rightarrow> Inl TypeError)
      | _ \<Rightarrow> Inl TypeError)"

text \<open>
  \<open>FormatMetadata\<close>. Python does not enforce the annotations of a dataclass, and a record
  decoded from JSON holds whatever the JSON held, so every field is a Python value.
\<close>

record format_metadata =
  bold_ranges :: pyval
  italic_ranges :: pyval
  heading_levels :: pyval
  lists :: pyval
  tables :: pyval
  hyperlinks :: pyval
  images :: pyval
  styles :: pyval
  file_hash :: pyval
  conversion_timestamp :: pyval

text \<open>\<open>FormatMetadata()\<close>: the defaults, after \<open>__post_init__\<close>.\<close>

definition FormatMetadata :: format_metadata where
  "FormatMetadata =
     \<lparr> bold_ranges = PList [], italic_ranges = PList [], heading_levels = PDict [],
       lists = PList [], tables = PList [], hyperlinks = PList [], images = PList [],
       styles = PDict [], file_hash = PStr [], conversion_timestamp = PStr [] \<rparr>"


section \<open>The rich document as it is read\<close>

text \<open>
  What the document-model collaborator exposes to the translator. Each flag of a run is
  the truth value of the attribute as the code tests it (\<open>None\<close> counts as false);
  \<open>has_hyperlink\<close> is whether \<open>run.element.xpath('.//w:hyperlink')\<close> finds anything.
\<close>

datatype alignment =
  LEFT | CENTER | RIGHT | JUSTIFY | DISTRIBUTE | JUSTIFY_MED | JUSTIFY_HI | JUSTIFY_LOW
  | THAI_JUSTIFY

record docx_run =
  run_text :: string
  run_bold :: bool
  run_italic :: bool
  run_underline :: bool
  font_strike :: bool
  font_superscript :: bool
  font_subscript :: bool
  has_hyperlink :: bool

record docx_paragraph =
  style_name :: string
  para_alignment :: "alignment option"
  para_text :: string
  para_runs :: "docx_run list"

text \<open>A table as read: its rows, each the texts of its cells.\<close>

type_synonym docx_table = "string list list"

record docx_document =
  doc_paragraphs :: "docx_paragraph list"
  doc_tables :: "docx_table list"


section \<open>The rich-to-markup translator\<close>

text \<open>The state of a \<open>WordToMarkdownConverter\<close>: its metadata record and line counter.\<close>

record converter =
  metadata :: format_metadata
  current_line :: nat

definition WordToMarkdownConverter :: converter where
  "WordToMarkdownConverter = \<lparr> metadata = FormatMetadata, current_line = 0 \<rparr>"

text \<open>
  The body of the loop of \<open>_process_runs\<close> for one run: the text it adds to the
  result, the state, and the new character position.
\<close>

definition process_run ::
  "converter \<Rightarrow> nat \<Rightarrow> docx_run \<Rightarrow> error + (string \<times> converter \<times> nat)" where
  "process_run st char_position run =
     (let start_pos = char_position;
          end_pos = char_position + length (run_text run);
          text0 = run_text run;
          text1 = (if font_superscript run then ''<sup>'' @ text0 @ ''</sup>''
                   else if font_subscript run then ''<sub>'' @ text0 @ ''</sub>''
                   else text0);
          text2 = (if font_strike run then ''~~'' @ text1 @ ''~~'' else text1);
          text3 = (if run_underline run then ''<u>'' @ text2 @ ''</u>'' else text2);
          text4 = (if run_bold run \<and> run_italic run then ''***'' @ text3 @ ''***''
                   else if run_bold run then ''**'' @ text3 @ ''**''
                   else if run_italic run then ''*'' @ text3 @ ''*''
                   else text3)
      in if has_hyperlink run
         then (case py_append (hyperlinks (metadata st))
                      (PDict [(PStr ''start'', PInt (int start_pos)),
                              (PStr ''end'', PInt (int end_pos)),
                              (PStr ''line'', PInt (int (current_line st)))]) of
                 Inl e \<Rightarrow> Inl e
               | Inr hl \<Rightarrow>
                   Inr (''['' @ run_text run @ ''](#''
                          @ lower (replace_char (run_text run) (CHR '' '') (CHR ''-'')) @ '')'',
                        st\<lparr>metadata := (metadata st)\<lparr>hyperlinks := hl\<rparr>\<rparr>,
                        end_pos))
         else Inr (text4, st, end_pos))"

fun process_runs_from ::
  "converter \<Rightarrow> string \<Rightarrow> nat \<Rightarrow> docx_run list \<Rightarrow> error + (string \<times> converter)" where
  "process_runs_from st result char_position [] = Inr (result, st)"
| "process_runs_from st result char_position (run # runs) =
     (case process_run st char_position run of
        Inl e \<Rightarrow> Inl e
      | Inr (text, st', end_pos) \<Rightarrow> process_runs_from st' (result @ text) end_pos runs)"

definition process_runs :: "converter \<Rightarrow> docx_run list \<Rightarrow> error + (string \<times> converter)" where
  "process_runs st runs = process_runs_from st [] 0 runs"

text \<open>\<open>re.findall(r'\d+', s)[0]\<close> when there is a match: the first run of digits.\<close>

definition first_digits :: "string \<Rightarrow> string" where
  "first_digits s = takeWhile isdigit (dropWhile (\<lambda>c. \<not> isdigit c) s)"

definition process_paragraph ::
  "converter \<Rightarrow> docx_paragraph \<Rightarrow> error + (string \<times> converter)" where
  "process_paragraph st paragraph =
     (if strip (para_text paragraph) = [] then Inr ([], st)
      else if startswith (style_name paragraph) ''Heading''
              \<or> startswith (style_name paragraph) ''Title''
      then (let level = (if style_name paragraph = ''Title'' then 1
                         else if first_digits (style_name paragraph) \<noteq> []
                         then nat_of_str (first_digits (style_name paragraph))
                         else 1)
            in case py_setitem (heading_levels (metadata st))
                      (PInt (int (current_line st))) (PInt (int level)) of
                 Inl e \<Rightarrow> Inl e
               | Inr hl \<Rightarrow>
                   Inr (replicate level (CHR ''#'') @ '' '' @ para_text paragraph,
                        st\<lparr>metadata := (metadata st)\<lparr>heading_levels := hl\<rparr>\<rparr>))
      else if list_ex (\<lambda>list_style. contains (style_name paragraph) list_style)
                [''List'', ''Bullet'', ''Number'']
      then (case py_append (lists (metadata st))
                    (PDict [(PStr ''line'', PInt (int (current_line st))),
                            (PStr ''style'', PStr (style_name paragraph))]) of
              Inl e \<Rightarrow> Inl e
            | Inr ls \<Rightarrow>
                Inr ((if list_ex (\<lambda>bullet. contains (style_name paragraph) bullet)
                           [''Bullet'', ''bullet'']
                      then ''- '' @ para_text paragraph
                      else ''1. '' @ para_text paragraph),
                     st\<lparr>metadata := (metadata st)\<lparr>lists := ls\<rparr>\<rparr>))
      else (case process_runs st (para_runs paragraph) of
              Inl e \<Rightarrow> Inl e
            | Inr (formatted_text, st') \<Rightarrow>
                (case para_alignment paragraph of
                   Some CENTER \<Rightarrow>
                     (case py_setitem (styles (metadata st'))
                             (PStr (str_nat (current_line st'))) (PStr ''center'') of
                        Inl e \<Rightarrow> Inl e
                      | Inr ss \<Rightarrow>
                          Inr (formatted_text, st'\<lparr>metadata := (metadata st')\<lparr>styles := ss\<rparr>\<rparr>))
                 | Some RIGHT \<Rightarrow>
                     (case py_setitem (styles (metadata st'))
                             (PStr (str_nat (current_line st'))) (PStr ''right'') of
                        Inl e \<Rightarrow> Inl e
                      | Inr ss \<Rightarrow>
                          Inr (formatted_text, st'\<lparr>metadata := (metadata st')\<lparr>styles := ss\<rparr>\<rparr>))
                 | _ \<Rightarrow> Inr (formatted_text, st'))))"

definition process_table :: "converter \<Rightarrow> docx_table \<Rightarrow> error + (string \<times> converter)" where
  "process_table st table =
     (if table = [] then Inr ([], st)
      else (let table_data = map (map strip) table
            in if table_data = [] \<or> hd table_data = [] then Inr ([], st)
               else (case py_append (tables (metadata st))
                             (PDict [(PStr ''line'', PInt (int (current_line st))),
                                     (PStr ''rows'', PInt (int (length table_data))),
                                     (PStr ''cols'', PInt (int (length (hd table_data)))),
                                     (PStr ''data'',
                                        PList (map (\<lambda>row. PList (map PStr row)) table_data))]) of
                       Inl e \<Rightarrow> Inl e
                     | Inr ts \<Rightarrow>
                         Inr (join [CHR 0x0A]
                                ([''| '' @ join '' | '' (hd table_data) @ '' |'',
                                  ''| '' @ join '' | ''
                                            (replicate (length (hd table_data)) ''---'')
                                         @ '' |'']
                                 @ map (\<lambda>row. ''| '' @ join '' | '' row @ '' |'')
                                       (tl table_data)),
                              st\<lparr>metadata := (metadata st)\<lparr>tables := ts\<rparr>\<rparr>))))"

text \<open>The two loops of \<open>_extract_content_and_metadata\<close>.\<close>

fun process_paragraphs ::
  "converter \<Rightarrow> string list \<Rightarrow> docx_paragraph list \<Rightarrow> error + (string list \<times> converter)" where
  "process_paragraphs st content_lines [] = Inr (content_lines, st)"
| "process_paragraphs st content_lines (paragraph # ps) =
     (case process_paragraph st paragraph of
        Inl e \<Rightarrow> Inl e
      | Inr (line_content, st') \<Rightarrow>
          if strip line_content \<noteq> []
          then process_paragraphs (st'\<lparr>current_line := current_line st' + 1\<rparr>)
                 (content_lines @ [line_content]) ps
          else process_paragraphs st' content_lines ps)"

fun process_tables ::
  "converter \<Rightarrow> string list \<Rightarrow> docx_table list \<Rightarrow> error + (string list \<times> converter)" where
  "process_tables st content_lines [] = Inr (content_lines, st)"
| "process_tables st content_lines (table # ts) =
     (case process_table st table of
        Inl e \<Rightarrow> Inl e
      | Inr (table_md, st') \<Rightarrow>
          if table_md \<noteq> []
          then process_tables
                 (st'\<lparr>current_line := current_line st' + count_list table_md (CHR 0x0A)\<rparr>)
                 (content_lines @ [table_md]) ts
          else process_tables st' content_lines ts)"

definition extract_content_and_metadata ::
  "converter \<Rightarrow> docx_document \<Rightarrow> error + (string \<times> converter)" where
  "extract_content_and_metadata st doc =
     (case process_paragraphs (st\<lparr>current_line := 0\<rparr>) [] (doc_paragraphs doc) of
        Inl e \<Rightarrow> Inl e
      | Inr (content_lines, st') \<Rightarrow>
          (case process_tables st' content_lines (doc_tables doc) of
             Inl e \<Rightarrow> Inl e
           | Inr (content_lines', st'') \<Rightarrow> Inr (join [CHR 0x0A] content_lines', st'')))"


section \<open>The rich document as it is built\<close>

text \<open>
  What the markup-to-rich translator asks of the document-model collaborator: paragraphs
  with a named style, runs with direct formatting, tables of cells, and the fonts of
  named styles. Lengths are in English Metric Units, as \<open>Pt\<close> and \<open>Inches\<close> give them.
  The named styles that the code uses are taken to be present in the document.
\<close>

definition Pt :: "int \<Rightarrow> int" where
  "Pt points = points * 12700"

definition quarter_inch :: int where
  "quarter_inch = 228600"

type_synonym rgb = "nat \<times> nat \<times> nat"

record run =
  r_text :: string
  r_bold :: bool
  r_italic :: bool
  r_underline :: bool
  r_font_name :: "string option"
  r_font_size :: "int option"
  r_color :: "rgb option"

record built_paragraph =
  p_style :: string
  p_runs :: "run list"
  p_alignment :: "alignment option"
  p_space_before :: "int option"
  p_space_after :: "int option"
  p_left_indent :: "int option"
  p_right_indent :: "int option"
  p_border_top :: "(rgb \<times> int) option"
  p_border_bottom :: "(rgb \<times> int) option"

record cell =
  cell_text :: string
  cell_bold :: bool

record table =
  t_cells :: "cell list list"
  t_style :: string
  t_autofit :: "bool option"

datatype block = Paragraph built_paragraph | Table table

record style_font =
  sf_name :: "string option"
  sf_size :: "int option"

record document =
  body :: "block list"
  style_fonts :: "(string \<times> style_font) list"

text \<open>
  \<open>paragraph.add_run(text)\<close>; \<open>add_run(None)\<close> and \<open>add_run('')\<close> give a run without text.
  The collaborator refuses a text with a control character that XML cannot hold
  (\<open>ValueError\<close>); the model takes every text, here and in \<open>new_paragraph\<close> and
  \<open>fill_row\<close>, so it speaks of texts without such characters.
\<close>

definition new_run :: "string \<Rightarrow> run" where
  "new_run t = \<lparr> r_text = t, r_bold = False, r_italic = False, r_underline = False,
                  r_font_name = None, r_font_size = None, r_color = None \<rparr>"

text \<open>\<open>doc.add_paragraph(text, style)\<close>: a run is made only for a non-empty text.\<close>

definition new_paragraph :: "string \<Rightarrow> string \<Rightarrow> built_paragraph" where
  "new_paragraph t style =
     \<lparr> p_style = style, p_runs = (if t = [] then [] else [new_run t]),
       p_alignment = None, p_space_before = None, p_space_after = None,
       p_left_indent = None, p_right_indent = None,
       p_border_top = None, p_border_bottom = None \<rparr>"

definition add_block :: "document \<Rightarrow> block \<Rightarrow> document" where
  "add_block doc b = doc\<lparr>body := body doc @ [b]\<rparr>"

text \<open>\<open>ConversionConfig\<close>; the three float fields are stored and never computed with.\<close>

record conversion_config =
  font_name :: string
  font_size :: int
  line_spacing :: pyval
  heading_font :: string
  heading_colors :: "(nat \<times> string) list"
  heading_sizes :: "(nat \<times> int) list"
  heading_spacing_before :: "(nat \<times> int) list"
  heading_spacing_after :: "(nat \<times> int) list"
  paragraph_spacing_after :: int
  paragraph_first_line_indent :: pyval
  list_spacing :: int
  list_indent :: pyval
  table_style :: string
  table_autofit :: bool
  code_font :: string
  code_size :: int
  code_background :: string
  use_builtin_styles :: bool
  custom_style_map :: "(string \<times> string) list"

definition ConversionConfig :: conversion_config where
  "ConversionConfig =
     \<lparr> font_name = ''Calibri'', font_size = 11, line_spacing = PFloat (Finite 2589569785738035 (- 51)),
       heading_font = ''Calibri'',
       heading_colors = [(1, ''#2E75B6''), (2, ''#C55A11''), (3, ''#70AD47''),
                         (4, ''#7030A0''), (5, ''#264478''), (6, ''#E7E6E6'')],
       heading_sizes = [(1, 16), (2, 14), (3, 12), (4, 11), (5, 11), (6, 10)],
       heading_spacing_before = [(1, 12), (2, 10), (3, 8), (4, 6), (5, 6), (6, 4)],
       heading_spacing_after = [(1, 6), (2, 6), (3, 4), (4, 4), (5, 2), (6, 2)],
       paragraph_spacing_after = 6, paragraph_first_line_indent = PFloat (Finite 0 0),
       list_spacing = 0, list_indent = PFloat (Finite 1 (- 2)),
       table_style = ''Table Grid'', table_autofit = True,
       code_font = ''Consolas'', code_size = 9, code_background = ''#F5F5F5'',
       use_builtin_styles = True, custom_style_map = [] \<rparr>"

text \<open>\<open>d.get(k, default)\<close>.\<close>

definition dict_get :: "('k \<times> 'v) list \<Rightarrow> 'k \<Rightarrow> 'v \<Rightarrow> 'v" where
  "dict_get d k dflt = (case map_of d k of None \<Rightarrow> dflt | Some v \<Rightarrow> v)"


section \<open>The markup-to-rich translator\<close>

subsection \<open>Blocks\<close>

definition add_code_block :: "conversion_config \<Rightarrow> document \<Rightarrow> string \<Rightarrow> document" where
  "add_code_block cfg doc code_content =
     (let p = new_paragraph code_content ''Normal'';
          p' = p\<lparr> p_left_indent := Some quarter_inch, p_right_indent := Some quarter_inch,
                  p_space_before := Some (Pt 6), p_space_after := Some (Pt 6) \<rparr>
      in (case p_runs p of
            r # rs \<Rightarrow>
              add_block doc
                (Paragraph (p'\<lparr> p_runs := r\<lparr> r_font_name := Some (code_font cfg),
                                               r_font_size := Some (Pt (code_size cfg)) \<rparr> # rs \<rparr>))
          | [] \<Rightarrow>
              add_block
                (doc\<lparr> style_fonts :=
                        AList.update ''Normal''
                          \<lparr> sf_name = Some (code_font cfg), sf_size = Some (Pt (code_size cfg)) \<rparr>
                          (style_fonts doc) \<rparr>)
                (Paragraph p')))"

text \<open>
  \<open>int(s, 16)\<close> for a slice \<open>s\<close> of at most two characters, where neither a \<open>0x\<close> prefix
  nor a digit separator can occur: surrounding white space, an optional sign, and
  at least one hexadecimal digit. \<open>None\<close> is \<open>ValueError\<close>.
\<close>

definition hex_digit :: "char \<Rightarrow> nat option" where
  "hex_digit c =
     (let n = (of_char c :: nat)
      in if 48 \<le> n \<and> n \<le> 57 then Some (n - 48)
         else if 65 \<le> n \<and> n \<le> 70 then Some (n - 55)
         else if 97 \<le> n \<and> n \<le> 102 then Some (n - 87)
         else None)"

definition hex_value :: "string \<Rightarrow> nat option" where
  "hex_value ds =
     (if ds = [] \<or> list_ex (\<lambda>c. hex_digit c = None) ds then None
      else Some (foldl (\<lambda>a c. 16 * a + (case hex_digit c of Some d \<Rightarrow> d | None \<Rightarrow> 0)) 0 ds))"

definition int16 :: "string \<Rightarrow> int option" where
  "int16 s =
     (let t = strip s
      in if startswith t ''-'' then map_option (\<lambda>n. - int n) (hex_value (tl t))
         else if startswith t ''+'' then map_option int (hex_value (tl t))
         else map_option int (hex_value t))"

text \<open>
  The colour of a heading: the three slices of the hexadecimal text, and \<open>RGBColor\<close>,
  which accepts values from 0 to 255 only. \<open>None\<close> is the \<open>ValueError\<close> that the code
  passes over.
\<close>

definition parse_color :: "string \<Rightarrow> rgb option" where
  "parse_color color =
     (let color_hex = filter (\<lambda>c. c \<noteq> CHR ''#'') color
      in (case (int16 (take 2 color_hex), int16 (take 2 (drop 2 color_hex)),
                int16 (take 2 (drop 4 color_hex))) of
            (Some r, Some g, Some b) \<Rightarrow>
              if 0 \<le> r \<and> r \<le> 255 \<and> 0 \<le> g \<and> g \<le> 255 \<and> 0 \<le> b \<and> b \<le> 255
              then Some (nat r, nat g, nat b) else None
          | _ \<Rightarrow> None))"

definition apply_custom_heading_format ::
  "conversion_config \<Rightarrow> built_paragraph \<Rightarrow> nat \<Rightarrow> built_paragraph" where
  "apply_custom_heading_format cfg p level =
     (let runs = (if p_runs p = [] then [new_run []] else p_runs p);
          r = hd runs;
          r' = r\<lparr> r_font_name := Some (heading_font cfg),
                  r_font_size := Some (Pt (dict_get (heading_sizes cfg) level 12)),
                  r_bold := True \<rparr>;
          r'' = (case map_of (heading_colors cfg) level of
                   None \<Rightarrow> r'
                 | Some color \<Rightarrow>
                     (case parse_color color of
                        None \<Rightarrow> r'
                      | Some c \<Rightarrow> r'\<lparr> r_color := Some c \<rparr>))
      in p\<lparr> p_runs := r'' # tl runs,
            p_space_before := Some (Pt (dict_get (heading_spacing_before cfg) level 6)),
            p_space_after := Some (Pt (dict_get (heading_spacing_after cfg) level 3)) \<rparr>)"

text \<open>\<open>doc.add_heading(text, level)\<close> refuses a level above 9.\<close>

definition add_heading :: "document \<Rightarrow> string \<Rightarrow> nat \<Rightarrow> error + document" where
  "add_heading doc t level =
     (if 9 < level then Inl ValueError
      else Inr (add_block doc
                  (Paragraph (new_paragraph t
                     (if level = 0 then ''Title'' else ''Heading '' @ str_nat level)))))"

definition is_horizontal_rule :: "string \<Rightarrow> bool" where
  "is_horizontal_rule line =
     (let stripped = strip line
      in if stripped = [] then False
         else if stripped \<in> set [''---'', ''***'', ''___''] then True
         else if 10 \<le> length stripped
         then (if list_all (\<lambda>c. c = CHR ''-'') stripped then True
               else if list_all (\<lambda>c. c = CHR ''='') stripped then True
               else if list_all (\<lambda>c. (of_char c :: nat) = 9472) stripped then True
               else False)
         else False)"

definition add_horizontal_rule :: "document \<Rightarrow> document" where
  "add_horizontal_rule doc =
     (let p = new_paragraph (replicate 50 (CHR ''_'')) ''Normal'';
          p' = p\<lparr> p_alignment := Some CENTER, p_space_after := Some (Pt 3),
                  p_space_before := Some (Pt 3) \<rparr>
      in (case p_runs p' of
            r # rs \<Rightarrow>
              add_block doc
                (Paragraph (p'\<lparr> p_runs := r\<lparr> r_color := Some (128, 128, 128),
                                               r_font_size := Some (Pt 8) \<rparr> # rs \<rparr>))
          | [] \<Rightarrow> add_block doc (Paragraph p')))"

text \<open>
  The header box. In the loop over the lines, \<open>lines[line_num + 1]\<close> and
  \<open>lines[line_num + 2]\<close> are the first two of the lines still to come, \<open>rest\<close>, and
  \<open>line_num + 2 < len(lines)\<close> says that there are at least two of them.
\<close>

definition is_header_box_divider :: "string \<Rightarrow> string list \<Rightarrow> bool" where
  "is_header_box_divider line rest =
     (let stripped = strip line
      in if 20 \<le> length stripped \<and> list_all (\<lambda>c. c = CHR ''='') stripped
         then (if 2 \<le> length rest
               then (let text_line = strip (rest ! 0);
                         closing_line = strip (rest ! 1)
                     in if text_line \<noteq> []
                           \<and> \<not> list_all (\<lambda>c. c \<in> set ''=-_'')
                                  (filter (\<lambda>c. \<not> isspace c) text_line)
                        then (if 20 \<le> length closing_line
                                 \<and> list_all (\<lambda>c. c = CHR ''='') closing_line
                              then True else False)
                        else False)
               else False)
         else False)"

text \<open>
  \<open>_extract_header_box_text\<close> returns the text and blanks the two lines in place; the
  changed list is returned with it.
\<close>

definition extract_header_box_text :: "string list \<Rightarrow> string option \<times> string list" where
  "extract_header_box_text rest =
     (if 2 \<le> length rest
      then (Some (strip (rest ! 0)), rest[0 := [], 1 := []])
      else (None, rest))"

text \<open>
  \<open>_add_header_box\<close> as the source writes it. The paragraph format of the collaborator
  has no border attributes, so the real call raises \<open>AttributeError\<close> at
  \<open>border_top\<close>; the definition gives the paragraph that the code describes. The loop
  over the lines never reaches it, as \<open>header_box_is_rule\<close> shows below.
\<close>

definition add_header_box :: "document \<Rightarrow> string \<Rightarrow> document" where
  "add_header_box doc header_text =
     (let p = new_paragraph header_text ''Normal'';
          p' = p\<lparr> p_alignment := Some CENTER,
                  p_border_top := Some ((0, 0, 0), Pt 2),
                  p_border_bottom := Some ((0, 0, 0), Pt 2),
                  p_space_before := Some (Pt 4), p_space_after := Some (Pt 4) \<rparr>
      in (case p_runs p' of
            r # rs \<Rightarrow>
              add_block doc
                (Paragraph (p'\<lparr> p_runs := r\<lparr> r_bold := True, r_font_size := Some (Pt 14) \<rparr> # rs \<rparr>))
          | [] \<Rightarrow>
              add_block doc
                (Paragraph (p'\<lparr> p_runs := [(new_run header_text)
                                              \<lparr> r_bold := True, r_font_size := Some (Pt 14) \<rparr>] \<rparr>))))"

subsection \<open>Tables\<close>

definition empty_cell :: cell where
  "empty_cell = \<lparr> cell_text = [], cell_bold = False \<rparr>"

text \<open>
  One row of the new table: the cells that the row of the markup fills, as far as the
  table has columns, and the cells left empty. Setting the text of a cell makes a run,
  which the header row turns bold.
\<close>

definition fill_row :: "nat \<Rightarrow> bool \<Rightarrow> string list \<Rightarrow> cell list" where
  "fill_row cols header row_data =
     map (\<lambda>cell_data. \<lparr> cell_text = cell_data, cell_bold = header \<rparr>) (take cols row_data)
     @ replicate (cols - length row_data) empty_cell"

fun fill_rows :: "nat \<Rightarrow> bool \<Rightarrow> string list list \<Rightarrow> cell list list" where
  "fill_rows cols header [] = []"
| "fill_rows cols header (row_data # rows) =
     fill_row cols header row_data # fill_rows cols False rows"

definition table_rows :: "string list \<Rightarrow> string list list" where
  "table_rows table_lines =
     filter (\<lambda>cells. cells \<noteq> [])
       (map (\<lambda>line. map strip (slice_1_m1 (split line (CHR ''|''))))
          (filter (\<lambda>line. \<not> contains line ''---'') table_lines))"

definition add_markdown_table ::
  "conversion_config \<Rightarrow> document \<Rightarrow> string list \<Rightarrow> document" where
  "add_markdown_table cfg doc table_lines =
     (let rows = table_rows table_lines
      in if rows = [] then doc
         else add_block doc
                (Table \<lparr> t_cells = fill_rows (length (hd rows)) True rows,
                         t_style = table_style cfg,
                         t_autofit = (if table_autofit cfg then Some True else None) \<rparr>))"


subsection \<open>Inline formatting\<close>

text \<open>
  The regular expression of \<open>_apply_inline_formatting\<close>,
  \<^verbatim>\<open>(\*\*\*(.+?)\*\*\*|\*\*(.+?)\*\*|\*(.+?)\*|`(.+?)`|\[(.+?)\]\((.+?)\))\<close>,
  as a backtracking matcher. \<open>lit d\<close> matches the literal \<open>d\<close> and returns what
  follows it. \<open>lazy_plus k\<close> is \<open>.+?\<close> followed by the rest of the pattern \<open>k\<close>: it takes one
  character, never a line feed, tries \<open>k\<close>, and takes one more character each time \<open>k\<close>
  fails.
\<close>

definition lit :: "string \<Rightarrow> string \<Rightarrow> string option" where
  "lit d s = (if startswith s d then Some (drop (length d) s) else None)"

fun lazy_plus :: "(string \<Rightarrow> 'a option) \<Rightarrow> string \<Rightarrow> string \<Rightarrow> (string \<times> 'a) option" where
  "lazy_plus k acc [] = None"
| "lazy_plus k acc (c # cs) =
     (if c = CHR 0x0A then None
      else (case k cs of
              Some r \<Rightarrow> Some (acc @ [c], r)
            | None \<Rightarrow> lazy_plus k (acc @ [c]) cs))"

text \<open>\<open>open (.+?) close\<close> at the start of \<open>s\<close>: the group and what follows the match.\<close>

definition delimited :: "string \<Rightarrow> string \<Rightarrow> string \<Rightarrow> (string \<times> string) option" where
  "delimited opn cls s =
     (case lit opn s of
        None \<Rightarrow> None
      | Some s' \<Rightarrow> lazy_plus (lit cls) [] s')"

text \<open>\<open>\[(.+?)\]\((.+?)\)\<close> at the start of \<open>s\<close>: the two groups and what follows.\<close>

definition link_pattern :: "string \<Rightarrow> (string \<times> string \<times> string) option" where
  "link_pattern s =
     (case lit ''['' s of
        None \<Rightarrow> None
      | Some s' \<Rightarrow>
          lazy_plus (\<lambda>t. case lit ''](''  t of
                             None \<Rightarrow> None
                           | Some t' \<Rightarrow> lazy_plus (lit '')'') [] t') [] s')"

text \<open>
  A match: the whole match (group 1), the groups 2 to 7, of which the alternative taken
  sets one or two, and the text after the match.
\<close>

record re_match =
  group1 :: string
  group2 :: "string option"
  group3 :: "string option"
  group4 :: "string option"
  group5 :: "string option"
  group6 :: "string option"
  group7 :: "string option"
  after_match :: string

definition no_groups :: "string \<Rightarrow> string \<Rightarrow> re_match" where
  "no_groups s rest =
     \<lparr> group1 = take (length s - length rest) s, group2 = None, group3 = None,
       group4 = None, group5 = None, group6 = None, group7 = None, after_match = rest \<rparr>"

text \<open>The pattern tried at the start of \<open>s\<close>: the alternatives in their order.\<close>

definition match_inline :: "string \<Rightarrow> re_match option" where
  "match_inline s =
     (case delimited ''***'' ''***'' s of
        Some (g, rest) \<Rightarrow> Some ((no_groups s rest)\<lparr> group2 := Some g \<rparr>)
      | None \<Rightarrow>
     (case delimited ''**'' ''**'' s of
        Some (g, rest) \<Rightarrow> Some ((no_groups s rest)\<lparr> group3 := Some g \<rparr>)
      | None \<Rightarrow>
     (case delimited ''*'' ''*'' s of
        Some (g, rest) \<Rightarrow> Some ((no_groups s rest)\<lparr> group4 := Some g \<rparr>)
      | None \<Rightarrow>
     (case delimited ''`'' ''`'' s of
        Some (g, rest) \<Rightarrow> Some ((no_groups s rest)\<lparr> group5 := Some g \<rparr>)
      | None \<Rightarrow>
     (case link_pattern s of
        Some (g, h, rest) \<Rightarrow> Some ((no_groups s rest)\<lparr> group6 := Some g, group7 := Some h \<rparr>)
      | None \<Rightarrow> None)))))"

definition group_text :: "string option \<Rightarrow> string" where
  "group_text g = (case g of None \<Rightarrow> [] | Some t \<Rightarrow> t)"

text \<open>
  The run that the loop body adds for a match. The branch is chosen from the text of the
  whole match, as in the source, not from the alternative that matched.
\<close>

definition formatted_run :: "conversion_config \<Rightarrow> re_match \<Rightarrow> run list" where
  "formatted_run cfg m =
     (let full_match = group1 m
      in if startswith full_match ''***'' \<and> endswith full_match ''***''
         then [(new_run (group_text (group2 m)))\<lparr> r_bold := True, r_italic := True \<rparr>]
         else if startswith full_match ''**'' \<and> endswith full_match ''**''
         then [(new_run (group_text (group3 m)))\<lparr> r_bold := True \<rparr>]
         else if startswith full_match ''*'' \<and> endswith full_match ''*''
         then [(new_run (group_text (group4 m)))\<lparr> r_italic := True \<rparr>]
         else if startswith full_match ''`'' \<and> endswith full_match ''`''
         then [(new_run (group_text (group5 m)))
                 \<lparr> r_font_name := Some (code_font cfg),
                   r_font_size := Some (Pt (code_size cfg)) \<rparr>]
         else if contains full_match ''['' \<and> contains full_match ''](''
         then [(new_run (group_text (group6 m)))
                 \<lparr> r_color := Some (0, 0, 255), r_underline := True \<rparr>]
         else [])"

lemma lazy_plus_shorter:
  assumes "\<And>t r. k t = Some r \<Longrightarrow> length (f r) \<le> length t"
  shows "lazy_plus k acc s = Some (g, r) \<Longrightarrow> length (f r) < length s"
proof (induction s arbitrary: acc)
  case Nil
  then show ?case by simp
next
  case (Cons c cs)
  show ?case
  proof (cases "k cs")
    case None
    with Cons.prems have "lazy_plus k (acc @ [c]) cs = Some (g, r)"
      by (simp split: if_splits)
    from Cons.IH [OF this] show ?thesis by simp
  next
    case (Some r')
    with Cons.prems have "r' = r" by (simp split: if_splits)
    with Some assms [of cs r] show ?thesis by simp
  qed
qed

lemma lit_shorter: "lit d t = Some r \<Longrightarrow> length r \<le> length t"
  by (auto simp: lit_def split: if_splits)

lemma delimited_shorter: "delimited opn cls s = Some (g, rest) \<Longrightarrow> length rest < length s"
proof -
  assume a: "delimited opn cls s = Some (g, rest)"
  then obtain s' where s': "lit opn s = Some s'" "lazy_plus (lit cls) [] s' = Some (g, rest)"
    by (auto simp: delimited_def split: option.splits)
  from lazy_plus_shorter [of "lit cls" "\<lambda>r. r", OF lit_shorter s'(2)]
  have "length rest < length s'" .
  with lit_shorter [OF s'(1)] show ?thesis by simp
qed

lemma link_pattern_shorter: "link_pattern s = Some (g, h, rest) \<Longrightarrow> length rest < length s"
proof -
  let ?k = "\<lambda>t. case lit ''](''  t of
                   None \<Rightarrow> None
                 | Some t' \<Rightarrow> lazy_plus (lit '')'') [] t'"
  assume a: "link_pattern s = Some (g, h, rest)"
  then obtain s' where s': "lit ''['' s = Some s'" "lazy_plus ?k [] s' = Some (g, h, rest)"
    by (auto simp: link_pattern_def split: option.splits)
  have k: "\<And>t r. ?k t = Some r \<Longrightarrow> length (snd r) \<le> length t"
  proof -
    fix t r assume "?k t = Some r"
    then obtain t' where t': "lit ''](''  t = Some t'" "lazy_plus (lit '')'') [] t' = Some r"
      by (auto split: option.splits)
    from lazy_plus_shorter [of "lit '')''" "\<lambda>r. r" "[]" t' "fst r" "snd r", OF lit_shorter] t'(2)
    have "length (snd r) < length t'" by simp
    with lit_shorter [OF t'(1)] show "length (snd r) \<le> length t" by simp
  qed
  from lazy_plus_shorter [of ?k snd "[]" s' g "(h, rest)", OF k s'(2)]
  have "length rest < length s'" by simp
  with lit_shorter [OF s'(1)] show ?thesis by simp
qed

lemma match_inline_shorter: "match_inline s = Some m \<Longrightarrow> length (after_match m) < length s"
  by (auto simp: match_inline_def no_groups_def split: option.splits
      dest: delimited_shorter link_pattern_shorter)

text \<open>
  The loop over \<open>re.finditer\<close> and the remaining text: \<open>pending\<close> is the unmatched text
  since the last match, \<open>s\<close> the text still to be scanned. The result is the runs added to
  the paragraph.
\<close>

function inline_runs :: "conversion_config \<Rightarrow> string \<Rightarrow> string \<Rightarrow> run list" where
  "inline_runs cfg pending [] = (if pending \<noteq> [] then [new_run pending] else [])"
| "inline_runs cfg pending (c # cs) =
     (case match_inline (c # cs) of
        Some m \<Rightarrow>
          (if pending \<noteq> [] then [new_run pending] else [])
          @ formatted_run cfg m @ inline_runs cfg [] (after_match m)
      | None \<Rightarrow> inline_runs cfg (pending @ [c]) cs)"
  by pat_completeness auto
termination
  by (relation "measure (\<lambda>(cfg, pending, s). length s)")
     (auto dest: match_inline_shorter)

definition apply_inline_formatting ::
  "conversion_config \<Rightarrow> built_paragraph \<Rightarrow> string \<Rightarrow> built_paragraph" where
  "apply_inline_formatting cfg p t = p\<lparr> p_runs := p_runs p @ inline_runs cfg [] t \<rparr>"

subsection \<open>The loop over the lines\<close>

text \<open>The local variables of \<open>_build_document\<close> that live across the lines.\<close>

record build_state =
  bs_doc :: document
  in_code_block :: bool
  code_block_content :: "string list"
  current_list_type :: "string option"

text \<open>\<open>re.match(r'^\s*\d+\.', line)\<close>: when it matches, the text after the dot.\<close>

definition number_marker :: "string \<Rightarrow> string option" where
  "number_marker line =
     (let s1 = dropWhile isspace line;
          s2 = dropWhile isdigit s1
      in if takeWhile isdigit s1 \<noteq> [] \<and> startswith s2 ''.'' then Some (tl s2) else None)"

definition is_table_line :: "string \<Rightarrow> bool" where
  "is_table_line l = (CHR ''|'' \<in> set l \<and> startswith (strip l) ''|'')"

text \<open>
  The body of the loop for one line. \<open>raw\<close> is \<open>lines[line_num]\<close> and \<open>rest\<close> the lines
  after it; the result holds \<open>rest\<close> again, since the header box blanks lines in it.
  The assignment to \<open>line_num\<close> after a table does not change which line the
  \<open>for\<close> loop visits next, so it leaves no trace here.
\<close>

definition build_line ::
  "conversion_config \<Rightarrow> string \<Rightarrow> string list \<Rightarrow> build_state
     \<Rightarrow> error + (string list \<times> build_state)" where
  "build_line cfg raw rest st =
     (let line = rstrip raw
      in if startswith line ''```''
         then (if in_code_block st
               then Inr (rest,
                         st\<lparr> bs_doc := add_code_block cfg (bs_doc st)
                                           (join [CHR 0x0A] (code_block_content st)),
                             code_block_content := [],
                             in_code_block := False \<rparr>)
               else Inr (rest, st\<lparr> in_code_block := True \<rparr>))
         else if in_code_block st
         then Inr (rest, st\<lparr> code_block_content := code_block_content st @ [line] \<rparr>)
         else if strip line = []
         then Inr (rest, st\<lparr> bs_doc := add_block (bs_doc st)
                                           (Paragraph (new_paragraph [] ''Normal'')) \<rparr>)
         else if is_horizontal_rule line
         then Inr (rest, st\<lparr> bs_doc := add_horizontal_rule (bs_doc st) \<rparr>)
         else
           (let (header_text, rest') =
                  (if is_header_box_divider line rest then extract_header_box_text rest
                   else (None, rest))
            in if header_text \<noteq> None \<and> header_text \<noteq> Some []
               then Inr (rest', st\<lparr> bs_doc := add_header_box (bs_doc st)
                                                  (group_text header_text) \<rparr>)
               else if startswith line ''#''
               then (let level = length line - length (lstrip_char (CHR ''#'') line);
                         heading_text = strip (lstrip_char (CHR ''#'') line)
                     in if use_builtin_styles cfg
                        then (case add_heading (bs_doc st) heading_text level of
                                Inl e \<Rightarrow> Inl e
                              | Inr doc' \<Rightarrow> Inr (rest', st\<lparr> bs_doc := doc' \<rparr>))
                        else Inr (rest',
                                  st\<lparr> bs_doc := add_block (bs_doc st)
                                        (Paragraph (apply_custom_heading_format cfg
                                           (new_paragraph heading_text ''Normal'') level)) \<rparr>))
               else if list_ex (\<lambda>marker. startswith (strip line) marker) [''-'', ''*'', ''+'']
               then Inr (rest',
                         st\<lparr> bs_doc := add_block (bs_doc st)
                               (Paragraph (new_paragraph (strip (tl (strip line))) ''List Bullet'')),
                             current_list_type := Some ''bullet'' \<rparr>)
               else if number_marker line \<noteq> None
               then Inr (rest',
                         st\<lparr> bs_doc := add_block (bs_doc st)
                               (Paragraph (new_paragraph
                                  (dropWhile isspace (group_text (number_marker line)))
                                  ''List Number'')),
                             current_list_type := Some ''number'' \<rparr>)
               else if CHR ''|'' \<in> set line \<and> startswith (strip line) ''|''
               then (let table_lines = line # takeWhile is_table_line rest'
                     in if 2 \<le> length table_lines
                        then Inr (rest', st\<lparr> bs_doc := add_markdown_table cfg (bs_doc st)
                                                           table_lines \<rparr>)
                        else Inr (rest', st))
               else if startswith (strip line) ''>''
               then Inr (rest',
                         st\<lparr> bs_doc := add_block (bs_doc st)
                               (Paragraph (new_paragraph (strip (tl (strip line))) ''Quote'')) \<rparr>)
               else Inr (rest',
                         st\<lparr> bs_doc := add_block (bs_doc st)
                               (Paragraph (apply_inline_formatting cfg
                                  (new_paragraph [] ''Normal'') line)),
                             current_list_type := None \<rparr>)))"

lemma extract_header_box_text_length:
  "length (snd (extract_header_box_text rest)) = length rest"
  by (simp add: extract_header_box_text_def)

lemma build_line_length:
  "build_line cfg raw rest st = Inr (rest', st') \<Longrightarrow> length rest' = length rest"
  using extract_header_box_text_length [of rest]
  by (auto simp: build_line_def Let_def split: if_splits prod.splits sum.splits)

function build_lines ::
  "conversion_config \<Rightarrow> string list \<Rightarrow> build_state \<Rightarrow> error + build_state" where
  "build_lines cfg [] st = Inr st"
| "build_lines cfg (raw # rest) st =
     (case build_line cfg raw rest st of
        Inl e \<Rightarrow> Inl e
      | Inr (rest', st') \<Rightarrow> build_lines cfg rest' st')"
  by pat_completeness auto
termination
  by (relation "measure (\<lambda>(cfg, lines, st). length lines)")
     (auto dest: build_line_length)

text \<open>
  \<open>_build_document\<close>. The parameter \<open>metadata\<close> is the record that
  \<open>_extract_metadata\<close> returned.
\<close>

definition build_document ::
  "conversion_config \<Rightarrow> document \<Rightarrow> string \<Rightarrow> format_metadata \<Rightarrow> error + document" where
  "build_document cfg doc content metadata' =
     (case build_lines cfg (split content (CHR 0x0A))
             \<lparr> bs_doc = doc, in_code_block = False, code_block_content = [],
               current_list_type = None \<rparr> of
        Inl e \<Rightarrow> Inl e
      | Inr st \<Rightarrow> Inr (bs_doc st))"

text \<open>\<open>Document()\<close>: a new document, empty.\<close>

definition Document :: document where
  "Document = \<lparr> body = [], style_fonts = [] \<rparr>"


subsection \<open>Front matter and the metadata block\<close>

text \<open>
  \<open>yaml.safe_load\<close> and \<open>json.loads\<close> are external collaborators and are parameters:
  each returns the decoded value, or \<open>None\<close> when it raises on text that it cannot
  decode. The module \<open>yaml\<close> is imported without a guard at the top of the file, so
  the test \<open>not yaml\<close> is false.
\<close>

definition extract_frontmatter_config :: "(string \<Rightarrow> pyval option) \<Rightarrow> string \<Rightarrow> pyval" where
  "extract_frontmatter_config yaml_load content =
     (if \<not> startswith content (''---'' @ [CHR 0x0A]) then PNone
      else (case find_from content ([CHR 0x0A] @ ''---'' @ [CHR 0x0A]) 4 of
              None \<Rightarrow> PNone
            | Some end_marker \<Rightarrow>
                (case yaml_load (take (end_marker - 4) (drop 4 content)) of
                   None \<Rightarrow> PNone
                 | Some v \<Rightarrow> v)))"

definition strip_frontmatter :: "string \<Rightarrow> string" where
  "strip_frontmatter content =
     (if \<not> startswith content (''---'' @ [CHR 0x0A]) then content
      else (case find_from content ([CHR 0x0A] @ ''---'' @ [CHR 0x0A]) 4 of
              None \<Rightarrow> content
            | Some end_marker \<Rightarrow> drop (end_marker + 5) content))"

text \<open>The truth value of a Python value, as \<open>if frontmatter_config:\<close> takes it.\<close>

fun truthy :: "pyval \<Rightarrow> bool" where
  "truthy PNone = False"
| "truthy (PBool b) = b"
| "truthy (PInt i) = (i \<noteq> 0)"
| "truthy (PFloat f) = (case f of Finite m e \<Rightarrow> m \<noteq> 0 | _ \<Rightarrow> True)"
| "truthy (PStr s) = (s \<noteq> [])"
| "truthy (PList vs) = (vs \<noteq> [])"
| "truthy (PDict kvs) = (kvs \<noteq> [])"

text \<open>
  \<open>_update_config_from_dict\<close>. \<open>config_dict.items()\<close> needs a dict, and \<open>hasattr\<close>
  needs a string for the name. What \<open>if hasattr(self.config, key): setattr(self.config,
  key, value)\<close> does to the configuration for a string key is the parameter \<open>assign\<close>:
  the attributes of the object are not those of the typed record alone.
\<close>

fun update_items ::
  "(string \<Rightarrow> pyval \<Rightarrow> conversion_config \<Rightarrow> error + conversion_config)
     \<Rightarrow> conversion_config \<Rightarrow> (pyval \<times> pyval) list \<Rightarrow> error + conversion_config" where
  "update_items assign cfg [] = Inr cfg"
| "update_items assign cfg ((key, v) # kvs) =
     (case key of
        PStr k \<Rightarrow>
          (case assign k v cfg of
             Inl e \<Rightarrow> Inl e
           | Inr cfg' \<Rightarrow> update_items assign cfg' kvs)
      | _ \<Rightarrow> Inl TypeError)"

definition update_config_from_dict ::
  "(string \<Rightarrow> pyval \<Rightarrow> conversion_config \<Rightarrow> error + conversion_config)
     \<Rightarrow> conversion_config \<Rightarrow> pyval \<Rightarrow> error + conversion_config" where
  "update_config_from_dict assign cfg config_dict =
     (case config_dict of
        PDict kvs \<Rightarrow> update_items assign cfg kvs
      | _ \<Rightarrow> Inl AttributeError)"

text \<open>
  \<open>re.search(r'<!-- WORD_CONVERSION_METADATA\n(.*?)\n-->', content, re.DOTALL)\<close>: group 1
  of the leftmost match. With \<open>DOTALL\<close> the lazy group ends where the closing marker
  first occurs.
\<close>

definition metadata_open :: string where
  "metadata_open = ''<!-- WORD_CONVERSION_METADATA'' @ [CHR 0x0A]"

definition metadata_close :: string where
  "metadata_close = [CHR 0x0A] @ ''-->''"

fun search_metadata :: "string \<Rightarrow> string option" where
  "search_metadata [] = None"
| "search_metadata (c # cs) =
     (case (case lit metadata_open (c # cs) of
              None \<Rightarrow> None
            | Some r \<Rightarrow> map_option (\<lambda>j. take j r) (find r metadata_close)) of
        Some g \<Rightarrow> Some g
      | None \<Rightarrow> search_metadata cs)"

text \<open>
  \<open>FormatMetadata(**metadata_dict)\<close>: only a mapping can be unpacked, every key must be
  the name of a field, and \<open>__post_init__\<close> replaces a \<open>None\<close> in the eight container
  fields by the empty container.
\<close>

definition set_field :: "format_metadata \<Rightarrow> string \<Rightarrow> pyval \<Rightarrow> format_metadata option" where
  "set_field m k v =
     (if k = ''bold_ranges'' then Some (m\<lparr>bold_ranges := v\<rparr>)
      else if k = ''italic_ranges'' then Some (m\<lparr>italic_ranges := v\<rparr>)
      else if k = ''heading_levels'' then Some (m\<lparr>heading_levels := v\<rparr>)
      else if k = ''lists'' then Some (m\<lparr>lists := v\<rparr>)
      else if k = ''tables'' then Some (m\<lparr>tables := v\<rparr>)
      else if k = ''hyperlinks'' then Some (m\<lparr>hyperlinks := v\<rparr>)
      else if k = ''images'' then Some (m\<lparr>images := v\<rparr>)
      else if k = ''styles'' then Some (m\<lparr>styles := v\<rparr>)
      else if k = ''file_hash'' then Some (m\<lparr>file_hash := v\<rparr>)
      else if k = ''conversion_timestamp'' then Some (m\<lparr>conversion_timestamp := v\<rparr>)
      else None)"

fun set_fields :: "format_metadata \<Rightarrow> (pyval \<times> pyval) list \<Rightarrow> error + format_metadata" where
  "set_fields m [] = Inr m"
| "set_fields m ((key, v) # kvs) =
     (case key of
        PStr k \<Rightarrow>
          (case set_field m k v of
             None \<Rightarrow> Inl TypeError
           | Some m' \<Rightarrow> set_fields m' kvs)
      | _ \<Rightarrow> Inl TypeError)"

definition or_default :: "pyval \<Rightarrow> pyval \<Rightarrow> pyval" where
  "or_default v d = (if v = PNone then d else v)"

definition post_init :: "format_metadata \<Rightarrow> format_metadata" where
  "post_init m =
     m\<lparr> bold_ranges := or_default (bold_ranges m) (PList []),
        italic_ranges := or_default (italic_ranges m) (PList []),
        heading_levels := or_default (heading_levels m) (PDict []),
        lists := or_default (lists m) (PList []),
        tables := or_default (tables m) (PList []),
        hyperlinks := or_default (hyperlinks m) (PList []),
        images := or_default (images m) (PList []),
        styles := or_default (styles m) (PDict []) \<rparr>"

definition FormatMetadata_kwargs :: "pyval \<Rightarrow> error + format_metadata" where
  "FormatMetadata_kwargs metadata_dict =
     (case metadata_dict of
        PDict kvs \<Rightarrow>
          (case set_fields
                  \<lparr> bold_ranges = PNone, italic_ranges = PNone, heading_levels = PNone,
                    lists = PNone, tables = PNone, hyperlinks = PNone, images = PNone,
                    styles = PNone, file_hash = PStr [], conversion_timestamp = PStr [] \<rparr>
                  kvs of
             Inl e \<Rightarrow> Inl e
           | Inr m \<Rightarrow> Inr (post_init m))
      | _ \<Rightarrow> Inl TypeError)"

text \<open>
  \<open>_extract_metadata\<close>. Only \<open>json.JSONDecodeError\<close> is caught; what the constructor
  raises goes on to the caller.
\<close>

definition extract_metadata :: "(string \<Rightarrow> pyval option) \<Rightarrow> string \<Rightarrow> error + format_metadata" where
  "extract_metadata json_loads content =
     (case search_metadata content of
        Some g \<Rightarrow>
          (case json_loads g of
             None \<Rightarrow> Inr FormatMetadata
           | Some metadata_dict \<Rightarrow> FormatMetadata_kwargs metadata_dict)
      | None \<Rightarrow> Inr FormatMetadata)"


text \<open>
  \<open>_strip_metadata\<close>:
  \<open>re.sub(r'\n\n<!-- WORD_CONVERSION_METADATA.*?-->\n?$', '', content, flags=re.DOTALL)\<close>.
  \<open>lazy_star k\<close> is \<open>.*?\<close> followed by the rest of the pattern \<open>k\<close>. After \<open>-->\<close> the
  pattern \<open>\n?$\<close> matches when nothing follows, or one line feed, or two, of which the
  second is then left in place. What a match leaves is too short for another match.
\<close>

fun lazy_star :: "(string \<Rightarrow> 'a option) \<Rightarrow> string \<Rightarrow> 'a option" where
  "lazy_star k [] = k []"
| "lazy_star k (c # cs) = (case k (c # cs) of Some r \<Rightarrow> Some r | None \<Rightarrow> lazy_star k cs)"

definition metadata_tail :: "string \<Rightarrow> string option" where
  "metadata_tail t =
     (case lit ''-->'' t of
        None \<Rightarrow> None
      | Some r \<Rightarrow>
          if r = [] \<or> r = [CHR 0x0A] then Some []
          else if r = [CHR 0x0A, CHR 0x0A] then Some [CHR 0x0A]
          else None)"

fun strip_metadata :: "string \<Rightarrow> string" where
  "strip_metadata [] = []"
| "strip_metadata (c # cs) =
     (case (case lit ([CHR 0x0A, CHR 0x0A] @ ''<!-- WORD_CONVERSION_METADATA'') (c # cs) of
              None \<Rightarrow> None
            | Some r \<Rightarrow> lazy_star metadata_tail r) of
        Some left \<Rightarrow> left
      | None \<Rightarrow> c # strip_metadata cs)"

text \<open>
  The \<open>try\<close> block of \<open>convert_md_to_docx\<close> from the content read to the document built.
  \<open>doc\<close> is the new document, made from the template or with the default styles set
  up. An error is an exception that leaves the block: the handler of the block reports
  it and the conversion returns \<open>False\<close> without saving a document.
\<close>

definition md_to_document ::
  "(string \<Rightarrow> pyval option) \<Rightarrow> (string \<Rightarrow> pyval option)
     \<Rightarrow> (string \<Rightarrow> pyval \<Rightarrow> conversion_config \<Rightarrow> error + conversion_config)
     \<Rightarrow> conversion_config \<Rightarrow> document \<Rightarrow> string \<Rightarrow> error + document" where
  "md_to_document yaml_load json_loads assign cfg doc content =
     (let frontmatter_config = extract_frontmatter_config yaml_load content
      in case (if truthy frontmatter_config
               then (case update_config_from_dict assign cfg frontmatter_config of
                       Inl e \<Rightarrow> Inl e
                     | Inr cfg' \<Rightarrow> Inr (cfg', strip_frontmatter content))
               else Inr (cfg, content)) of
           Inl e \<Rightarrow> Inl e
         | Inr (cfg', content') \<Rightarrow>
             (case extract_metadata json_loads content' of
                Inl e \<Rightarrow> Inl e
              | Inr metadata' \<Rightarrow>
                  build_document cfg' doc (strip_metadata content') metadata'))"


section \<open>The nesting of inline markup, as stated\<close>

text \<open>
  The delimiters that the specification names for a run, each as a function of the
  attributes of the run. \<open>tagged_text\<close> is the text of the run inside its tags:
  underline tags around strikethrough around superscript or subscript tags.
\<close>

definition emphasis_mark :: "docx_run \<Rightarrow> string" where
  "emphasis_mark r =
     (if run_bold r \<and> run_italic r then ''***''
      else if run_bold r then ''**''
      else if run_italic r then ''*''
      else [])"

definition underline_open :: "docx_run \<Rightarrow> string" where
  "underline_open r = (if run_underline r then ''<u>'' else [])"

definition underline_close :: "docx_run \<Rightarrow> string" where
  "underline_close r = (if run_underline r then ''</u>'' else [])"

definition strike_mark :: "docx_run \<Rightarrow> string" where
  "strike_mark r = (if font_strike r then ''~~'' else [])"

definition script_open :: "docx_run \<Rightarrow> string" where
  "script_open r =
     (if font_superscript r then ''<sup>'' else if font_subscript r then ''<sub>'' else [])"

definition script_close :: "docx_run \<Rightarrow> string" where
  "script_close r =
     (if font_superscript r then ''</sup>'' else if font_subscript r then ''</sub>'' else [])"

definition tagged_text :: "docx_run \<Rightarrow> string" where
  "tagged_text r =
     underline_open r @ strike_mark r @ script_open r @ run_text r
       @ script_close r @ strike_mark r @ underline_close r"

text \<open>
  The link that stands for a run with a hyperlink, and the paragraphs that the claims
  call plain: a text that is not blank, and a style that is neither a heading, a title
  nor a list.
\<close>

definition link_markup :: "docx_run \<Rightarrow> string" where
  "link_markup r =
     ''['' @ run_text r @ ''](#''
       @ lower (replace_char (run_text r) (CHR '' '') (CHR ''-'')) @ '')''"

definition plain_paragraph :: "docx_paragraph \<Rightarrow> bool" where
  "plain_paragraph p =
     (strip (para_text p) \<noteq> []
      \<and> \<not> startswith (style_name p) ''Heading''
      \<and> \<not> startswith (style_name p) ''Title''
      \<and> \<not> contains (style_name p) ''List''
      \<and> \<not> contains (style_name p) ''Bullet''
      \<and> \<not> contains (style_name p) ''Number'')"

section \<open>Properties\<close>

subsection \<open>Hashing\<close>

lemma foldl_update: "foldl update h blocks = h @ concat blocks"
  by (induction blocks arbitrary: h) (simp_all add: update_def)

lemma concat_read_blocks: "concat (read_blocks bs) = bs"
proof (induction bs rule: read_blocks.induct)
  case (1 bs)
  show ?case
  proof (cases "take 4096 bs = []")
    case True
    then have "bs = []" by simp
    then show ?thesis by (simp add: read_blocks.simps)
  next
    case False
    then have "concat (read_blocks (drop 4096 bs)) = drop 4096 bs"
      using "1" by simp
    with False show ?thesis
      by (subst read_blocks.simps) (simp add: Let_def)
  qed
qed

lemma calculate_file_hash_Some:
  "map_of fs p = Some bs \<Longrightarrow> calculate_file_hash H fs p = H bs"
  by (simp add: calculate_file_hash_def hexdigest_def foldl_update sha256_new_def
      concat_read_blocks)

lemma calculate_file_hash_None:
  "\<not> exists fs p \<Longrightarrow> calculate_file_hash H fs p = []"
  by (simp add: calculate_file_hash_def exists_def)

text \<open>
  Claim C8. For a path with no file, \<open>calculate_file_hash\<close> returns the empty string
  and raises nothing; for an existing file it returns the digest of the whole byte stream
  of the file, although the file is read in blocks of 4096 bytes; and the result depends
  on the bytes alone: two files with the same bytes, wherever they are, have equal
  digests.
\<close>

theorem calculate_file_hash_spec:
  "(\<not> exists fs m \<longrightarrow> calculate_file_hash H fs m = [])
   \<and> (map_of fs p = Some bs \<longrightarrow> calculate_file_hash H fs p = H bs)
   \<and> (map_of fs p = Some bs \<and> map_of fs' q = Some bs
        \<longrightarrow> calculate_file_hash H fs p = calculate_file_hash H fs' q)"
  by (simp add: calculate_file_hash_Some calculate_file_hash_None)

theorem calculate_file_hash_spec_witness:
  "\<not> exists [(Path ''out/'' ''a.md'', [1, 2, 3])] (Path ''out/'' ''b.md'')
   \<and> calculate_file_hash (\<lambda>bs. replicate (length bs) (CHR ''f''))
        [(Path ''out/'' ''a.md'', [1, 2, 3])] (Path ''out/'' ''b.md'') = []
   \<and> map_of [(Path ''out/'' ''a.md'', [1, 2, 3 :: byte])] (Path ''out/'' ''a.md'') = Some [1, 2, 3]
   \<and> map_of [(Path [] ''c.docx'', [1, 2, 3 :: byte])] (Path [] ''c.docx'') = Some [1, 2, 3]
   \<and> calculate_file_hash (\<lambda>bs. replicate (length bs) (CHR ''f''))
        [(Path ''out/'' ''a.md'', [1, 2, 3])] (Path ''out/'' ''a.md'') = ''fff''
   \<and> calculate_file_hash (\<lambda>bs. replicate (length bs) (CHR ''f''))
        [(Path ''out/'' ''a.md'', [1, 2, 3])] (Path ''out/'' ''a.md'')
     = calculate_file_hash (\<lambda>bs. replicate (length bs) (CHR ''f''))
        [(Path [] ''c.docx'', [1, 2, 3])] (Path [] ''c.docx'')"
  using calculate_file_hash_spec
    [of "[(Path ''out/'' ''a.md'', [1, 2, 3])]" "Path ''out/'' ''b.md''"
        "\<lambda>bs. replicate (length bs) (CHR ''f'')" "Path ''out/'' ''a.md''" "[1, 2, 3]"
        "[(Path [] ''c.docx'', [1, 2, 3])]" "Path [] ''c.docx''"]
  by (simp add: exists_def calculate_file_hash_Some)

subsection \<open>Collision detection\<close>

lemma snd_calculate_file_hash_run:
  "snd (calculate_file_hash_run H fs p) = calculate_file_hash H fs p"
  by (simp add: calculate_file_hash_run_def calculate_file_hash_def split: option.splits)

lemma fst_calculate_file_hash_run:
  "\<not> list_ex modifies (fst (calculate_file_hash_run H fs p))"
  by (simp add: calculate_file_hash_run_def split: option.splits)

lemma detect_conversion_collision_run_result:
  "snd (detect_conversion_collision_run H fs a b) = detect_conversion_collision H fs a b"
  using snd_calculate_file_hash_run [of H fs a] snd_calculate_file_hash_run [of H fs b]
  by (auto simp: detect_conversion_collision_run_def detect_conversion_collision_def
      split: prod.splits)

lemma detect_conversion_collision_run_reads:
  "\<not> list_ex modifies (fst (detect_conversion_collision_run H fs a b))"
  using fst_calculate_file_hash_run [of H fs a] fst_calculate_file_hash_run [of H fs b]
  by (auto simp: detect_conversion_collision_run_def split: prod.splits)

text \<open>
  Claim C2. With the bytes \<open>x\<close> of the source and \<open>y\<close> of the target, and \<open>H\<close> the digest
  function: \<open>detect_conversion_collision\<close> is true exactly when the target exists, the
  stems are equal and \<open>H x\<close> differs from \<open>H y\<close> (for a source that does not exist, when
  \<open>H y\<close> differs from the empty string that stands for its digest). So it is false for a
  target that does not exist, and false for two existing files with the same digest. The
  file operations that it performs are \<open>Stat\<close> and \<open>ReadFile\<close> only: it modifies nothing.
\<close>

theorem detect_conversion_collision_bytes:
  "(map_of fs a = Some x \<and> map_of fs b = Some y
      \<longrightarrow> detect_conversion_collision H fs a b = (stem a = stem b \<and> H x \<noteq> H y))
   \<and> (map_of fs a0 = None \<and> map_of fs b0 = Some y0
      \<longrightarrow> detect_conversion_collision H fs a0 b0 = (stem a0 = stem b0 \<and> H y0 \<noteq> []))
   \<and> (map_of fs b1 = None \<longrightarrow> \<not> detect_conversion_collision H fs a1 b1)
   \<and> (map_of fs a2 = Some x2 \<and> map_of fs b2 = Some y2 \<and> H x2 = H y2
      \<longrightarrow> \<not> detect_conversion_collision H fs a2 b2)
   \<and> snd (detect_conversion_collision_run H fs a b) = detect_conversion_collision H fs a b
   \<and> \<not> list_ex modifies (fst (detect_conversion_collision_run H fs a b))"
proof (intro conjI impI)
  show "snd (detect_conversion_collision_run H fs a b) = detect_conversion_collision H fs a b"
    by (rule detect_conversion_collision_run_result)
  show "\<not> list_ex modifies (fst (detect_conversion_collision_run H fs a b))"
    by (rule detect_conversion_collision_run_reads)
qed (auto simp: detect_conversion_collision_def calculate_file_hash_Some
      calculate_file_hash_None exists_def)

theorem detect_conversion_collision_bytes_witness:
  "(map_of [(Path [] ''a.md'', [1]), (Path [] ''a.docx'', [2, 2]), (Path [] ''c.docx'', [3 :: byte])]
      (Path [] ''a.md'') = Some [1]
    \<and> map_of [(Path [] ''a.md'', [1]), (Path [] ''a.docx'', [2, 2]), (Path [] ''c.docx'', [3 :: byte])]
      (Path [] ''a.docx'') = Some [2, 2])
   \<and> detect_conversion_collision (\<lambda>bs. replicate (length bs) (CHR ''f''))
        [(Path [] ''a.md'', [1]), (Path [] ''a.docx'', [2, 2]), (Path [] ''c.docx'', [3])]
        (Path [] ''a.md'') (Path [] ''a.docx'')
   \<and> (map_of [(Path [] ''a.md'', [1]), (Path [] ''a.docx'', [2, 2]), (Path [] ''c.docx'', [3 :: byte])]
      (Path [] ''b.md'') = None
    \<and> map_of [(Path [] ''a.md'', [1]), (Path [] ''a.docx'', [2, 2]), (Path [] ''c.docx'', [3 :: byte])]
      (Path [] ''b.docx'') = None)
   \<and> \<not> detect_conversion_collision (\<lambda>bs. replicate (length bs) (CHR ''f''))
        [(Path [] ''a.md'', [1]), (Path [] ''a.docx'', [2, 2]), (Path [] ''c.docx'', [3])]
        (Path [] ''b.md'') (Path [] ''b.docx'')
   \<and> map_of [(Path [] ''a.md'', [1]), (Path [] ''a.docx'', [2, 2]), (Path [] ''c.docx'', [3 :: byte])]
      (Path [] ''c.docx'') = Some [3]
   \<and> map_of [(Path [] ''a.md'', [1]), (Path [] ''a.docx'', [2, 2]), (Path [] ''c.docx'', [3 :: byte])]
      (Path [] ''c.md'') = None
   \<and> detect_conversion_collision (\<lambda>bs. replicate (length bs) (CHR ''f''))
        [(Path [] ''a.md'', [1]), (Path [] ''a.docx'', [2, 2]), (Path [] ''c.docx'', [3])]
        (Path [] ''c.md'') (Path [] ''c.docx'')
   \<and> (\<lambda>bs :: byte list. replicate (length bs) (CHR ''f'')) [1] = replicate (length [3 :: byte]) (CHR ''f'')
   \<and> \<not> detect_conversion_collision (\<lambda>bs. replicate (length bs) (CHR ''f''))
        [(Path [] ''a.md'', [1]), (Path [] ''a.docx'', [2, 2]), (Path [] ''c.docx'', [3])]
        (Path [] ''a.md'') (Path [] ''c.docx'')
   \<and> fst (detect_conversion_collision_run (\<lambda>bs. replicate (length bs) (CHR ''f''))
        [(Path [] ''a.md'', [1]), (Path [] ''a.docx'', [2, 2]), (Path [] ''c.docx'', [3])]
        (Path [] ''a.md'') (Path [] ''a.docx''))
      = [Stat (Path [] ''a.docx''), Stat (Path [] ''a.md''), ReadFile (Path [] ''a.md''),
         Stat (Path [] ''a.docx''), ReadFile (Path [] ''a.docx'')]"
proof -
  let ?H = "\<lambda>bs :: byte list. replicate (length bs) (CHR ''f'')"
  let ?fs = "[(Path [] ''a.md'', [1 :: byte]), (Path [] ''a.docx'', [2, 2]), (Path [] ''c.docx'', [3])]"
  have s: "stem (Path [] ''a.md'') = stem (Path [] ''a.docx'')"
    "stem (Path [] ''c.md'') = stem (Path [] ''c.docx'')"
    by (simp_all add: stem_def rfind_def)
  have r: "fst (detect_conversion_collision_run ?H ?fs (Path [] ''a.md'') (Path [] ''a.docx''))
      = [Stat (Path [] ''a.docx''), Stat (Path [] ''a.md''), ReadFile (Path [] ''a.md''),
         Stat (Path [] ''a.docx''), ReadFile (Path [] ''a.docx'')]"
    by (simp add: detect_conversion_collision_run_def calculate_file_hash_run_def exists_def s)
  from detect_conversion_collision_bytes
    [of ?fs "Path [] ''a.md''" "[1]" "Path [] ''a.docx''" "[2, 2]" ?H
        "Path [] ''c.md''" "Path [] ''c.docx''" "[3]"
        "Path [] ''b.docx''" "Path [] ''b.md''"
        "Path [] ''a.md''" "[1]" "Path [] ''c.docx''" "[3]"] s r
  show ?thesis by simp
qed

subsection \<open>Backups\<close>

lemma rfind_Some:
  assumes "rfind s c = Some i"
  shows "i < length s \<and> s ! i = c"
proof -
  let ?t = "takeWhile (\<lambda>x. x \<noteq> c) (rev s)"
  from assms have mem: "c \<in> set s" and i: "i = length s - 1 - length ?t"
    by (auto simp: rfind_def split: if_splits)
  from mem have "dropWhile (\<lambda>x. x \<noteq> c) (rev s) \<noteq> []"
    by (simp add: dropWhile_eq_Nil_conv)
  moreover have "length ?t + length (dropWhile (\<lambda>x. x \<noteq> c) (rev s)) = length (rev s)"
    by (metis length_append takeWhile_dropWhile_id)
  ultimately have lt: "length ?t < length (rev s)"
    by (cases "dropWhile (\<lambda>x. x \<noteq> c) (rev s)") auto
  then have "rev s ! length ?t = c"
    using nth_length_takeWhile [of "\<lambda>x. x \<noteq> c" "rev s"] by simp
  moreover from lt have "rev s ! length ?t = s ! (length s - Suc (length ?t))"
    by (simp add: rev_nth)
  ultimately show ?thesis using lt i by simp
qed

lemma suffix_cases:
  "suffix p = [] \<or> (\<exists>i. i < length (name p) \<and> suffix p = CHR ''.'' # drop (Suc i) (name p)
      \<and> take i (name p) @ suffix p = name p \<and> i + 1 < length (name p))"
proof (cases "suffix p = []")
  case True then show ?thesis by simp
next
  case False
  then obtain i where i: "rfind (name p) (CHR ''.'') = Some i" "0 < i" "i + 1 < length (name p)"
    "suffix p = drop i (name p)"
    by (auto simp: suffix_def split: option.splits if_splits)
  from rfind_Some [OF i(1)] have "i < length (name p)" "name p ! i = CHR ''.''" by simp_all
  then have "drop i (name p) = CHR ''.'' # drop (Suc i) (name p)"
    by (metis Cons_nth_drop_Suc)
  with i \<open>i < length (name p)\<close> have
    "i < length (name p) \<and> suffix p = CHR ''.'' # drop (Suc i) (name p)
      \<and> take i (name p) @ suffix p = name p \<and> i + 1 < length (name p)"
    by (metis append_take_drop_id)
  then show ?thesis by blast
qed

lemma set_str_nat: "set (str_nat k) \<subseteq> set ''0123456789''"
proof (induction k rule: str_nat.induct)
  case (1 n)
  have d: "\<And>d. d < 10 \<Longrightarrow> digit_char d \<in> set ''0123456789''"
    unfolding digit_char_def by (rule nth_mem) simp
  show ?case
  proof (cases "n < 10")
    case True
    then show ?thesis using d [of n] by (subst str_nat.simps) simp
  next
    case False
    then show ?thesis using "1" d [of "n mod 10"]
      by (subst str_nat.simps) simp
  qed
qed

lemma with_suffix_append:
  assumes "name p \<noteq> []" and "CHR ''/'' \<notin> set (name p)" and "CHR ''/'' \<notin> set x"
    and "startswith x ''.''" and "2 \<le> length x"
  shows "with_suffix p (suffix p @ x) = Inr (Path (parent p) (name p @ x))"
proof -
  from suffix_cases [of p] show ?thesis
  proof
    assume e: "suffix p = []"
    with assms show ?thesis
      by (auto simp: with_suffix_def startswith_def)
  next
    assume "\<exists>i. i < length (name p) \<and> suffix p = CHR ''.'' # drop (Suc i) (name p)
      \<and> take i (name p) @ suffix p = name p \<and> i + 1 < length (name p)"
    then obtain i where i: "i < length (name p)" "suffix p = CHR ''.'' # drop (Suc i) (name p)"
      "take i (name p) @ suffix p = name p" by blast
    from i(3) have len: "length (name p) - length (suffix p) = i"
      by (metis add_diff_cancel_right' i(1) length_append length_take min.absorb2 less_imp_le)
    have "set (suffix p) \<subseteq> set (name p)"
      by (metis i(3) set_append sup_ge2)
    with assms(2) have "CHR ''/'' \<notin> set (suffix p)" by blast
    with assms i(2,3) len show ?thesis
      by (auto simp: with_suffix_def startswith_def)
  qed
qed


lemma startswith_dot_backup: "startswith (''.backup'' @ x) ''.''"
  by (simp add: startswith_def)

lemma first_backup:
  assumes "name p \<noteq> []" and "CHR ''/'' \<notin> set (name p)" and "backup_suffix cfg = ''.backup''"
  shows "with_suffix p (suffix p @ backup_suffix cfg) = Inr (nth_backup p 0)"
  using with_suffix_append [OF assms(1,2), of "''.backup''"] assms(3)
  by (simp add: nth_backup_def startswith_def)

lemma numbered_backup_default:
  assumes "name p \<noteq> []" and "CHR ''/'' \<notin> set (name p)" and "backup_suffix cfg = ''.backup''"
    and "0 < k"
  shows "numbered_backup cfg p k = Inr (nth_backup p k)"
proof -
  have "CHR ''/'' \<notin> set (str_nat k)"
    using set_str_nat [of k] by auto
  then have "with_suffix p (suffix p @ (''.backup.'' @ str_nat k))
               = Inr (Path (parent p) (name p @ (''.backup.'' @ str_nat k)))"
    by (intro with_suffix_append assms) (simp_all add: startswith_def)
  with assms(3,4) show ?thesis
    by (simp add: numbered_backup_def nth_backup_def)
qed

lemma backup_loop_finds:
  "name p \<noteq> [] \<Longrightarrow> CHR ''/'' \<notin> set (name p) \<Longrightarrow> backup_suffix cfg = ''.backup'' \<Longrightarrow>
   bp = nth_backup p n \<Longrightarrow> counter = n + 1 \<Longrightarrow> \<forall>j<n. exists fs (nth_backup p j) \<Longrightarrow>
   \<exists>k. backup_loop cfg fs p counter bp = Inr (nth_backup p k)
        \<and> (\<forall>j<k. exists fs (nth_backup p j)) \<and> \<not> exists fs (nth_backup p k)"
proof (induction cfg fs p counter bp arbitrary: n rule: backup_loop.induct)
  case (1 cfg fs file_path counter backup_path)
  note nm = "1.prems"(1-3)
  show ?case
  proof (cases "exists fs backup_path")
    case False
    with "1.prems" show ?thesis
      by (subst backup_loop.simps) auto
  next
    case True
    have nb: "numbered_backup cfg file_path counter = Inr (nth_backup file_path (n + 1))"
      using numbered_backup_default [OF nm, of "n + 1"] "1.prems" by simp
    have all: "\<forall>j<n + 1. exists fs (nth_backup file_path j)"
      using True "1.prems" by (auto simp: less_Suc_eq)
    have cnt: "counter + 1 = (n + 1) + 1"
      using "1.prems" by simp
    from "1.IH" [OF True nb nm refl cnt all]
    obtain k where "backup_loop cfg fs file_path (counter + 1) (nth_backup file_path (n + 1))
        = Inr (nth_backup file_path k)"
      "\<forall>j<k. exists fs (nth_backup file_path j)" "\<not> exists fs (nth_backup file_path k)"
      by auto
    with True nb show ?thesis
      by (subst backup_loop.simps) auto
  qed
qed

text \<open>
  Claim C3. For an existing file (a non-empty name without a separator) and the default
  suffix, \<open>create_backup\<close> returns a backup path that did not exist before: the first
  of \<open>file.ext.backup\<close>, \<open>file.ext.backup.1\<close>, \<open>file.ext.backup.2\<close>, ... that is free,
  every earlier one being taken. The copy leaves every file that existed as it was, so
  no earlier backup is overwritten, and the new file holds the bytes of the original.
  For a path with no file it returns \<open>None\<close>, raises nothing and changes nothing.
\<close>

theorem create_backup_fresh_name:
  "(exists fs p \<and> name p \<noteq> [] \<and> CHR ''/'' \<notin> set (name p) \<and> backup_suffix cfg = ''.backup''
      \<longrightarrow> (\<exists>k fs'. create_backup cfg fs p = Inr (fs', Some (nth_backup p k))
                   \<and> (\<forall>j<k. exists fs (nth_backup p j))
                   \<and> \<not> exists fs (nth_backup p k)
                   \<and> (\<forall>q. exists fs q \<longrightarrow> map_of fs' q = map_of fs q)
                   \<and> map_of fs' (nth_backup p k) = map_of fs p))
   \<and> (\<not> exists fs m \<longrightarrow> create_backup cfg' fs m = Inr (fs, None))"
proof (intro conjI impI)
  assume "\<not> exists fs m"
  then show "create_backup cfg' fs m = Inr (fs, None)"
    by (simp add: create_backup_def)
next
  assume a: "exists fs p \<and> name p \<noteq> [] \<and> CHR ''/'' \<notin> set (name p) \<and> backup_suffix cfg = ''.backup''"
  then have nm: "name p \<noteq> []" "CHR ''/'' \<notin> set (name p)" "backup_suffix cfg = ''.backup''"
    by simp_all
  from a obtain bs where bs: "map_of fs p = Some bs"
    by (auto simp: exists_def)
  from backup_loop_finds [OF nm, of "nth_backup p 0" 0 1 fs]
  obtain k where k: "backup_loop cfg fs p 1 (nth_backup p 0) = Inr (nth_backup p k)"
    "\<forall>j<k. exists fs (nth_backup p j)" "\<not> exists fs (nth_backup p k)"
    by auto
  let ?fs' = "write_file fs (nth_backup p k) bs"
  have "create_backup cfg fs p = Inr (?fs', Some (nth_backup p k))"
    using a bs k(1) first_backup [OF nm]
    by (simp add: create_backup_def copy2_def)
  moreover have "\<forall>q. exists fs q \<longrightarrow> map_of ?fs' q = map_of fs q"
    using k(3) by (auto simp: write_file_def)
  moreover have "map_of ?fs' (nth_backup p k) = map_of fs p"
    using bs by (simp add: write_file_def)
  ultimately show "\<exists>k fs'. create_backup cfg fs p = Inr (fs', Some (nth_backup p k))
                   \<and> (\<forall>j<k. exists fs (nth_backup p j))
                   \<and> \<not> exists fs (nth_backup p k)
                   \<and> (\<forall>q. exists fs q \<longrightarrow> map_of fs' q = map_of fs q)
                   \<and> map_of fs' (nth_backup p k) = map_of fs p"
    using k(2,3) by blast
qed

text \<open>The three runs of the specification, evaluated.\<close>

lemma create_backup_examples:
  "create_backup SafetyConfig [(Path ''d/'' ''file.ext'', [7])] (Path ''d/'' ''file.ext'')
     = Inr ([(Path ''d/'' ''file.ext.backup'', [7]), (Path ''d/'' ''file.ext'', [7])],
            Some (Path ''d/'' ''file.ext.backup''))"
  "create_backup SafetyConfig
     [(Path ''d/'' ''file.ext.backup'', [7]), (Path ''d/'' ''file.ext'', [8])]
     (Path ''d/'' ''file.ext'')
     = Inr ([(Path ''d/'' ''file.ext.backup.1'', [8]), (Path ''d/'' ''file.ext.backup'', [7]),
             (Path ''d/'' ''file.ext'', [8])],
            Some (Path ''d/'' ''file.ext.backup.1''))"
  "create_backup SafetyConfig
     [(Path ''d/'' ''file.ext.backup.1'', [8]), (Path ''d/'' ''file.ext.backup'', [7]),
      (Path ''d/'' ''file.ext'', [9])]
     (Path ''d/'' ''file.ext'')
     = Inr ([(Path ''d/'' ''file.ext.backup.2'', [9]), (Path ''d/'' ''file.ext.backup.1'', [8]),
             (Path ''d/'' ''file.ext.backup'', [7]), (Path ''d/'' ''file.ext'', [9])],
            Some (Path ''d/'' ''file.ext.backup.2''))"
  by (simp_all add: create_backup_def SafetyConfig_def exists_def with_suffix_def suffix_def
      rfind_def startswith_def backup_loop.simps numbered_backup_def str_nat.simps
      digit_char_def copy2_def write_file_def)

theorem create_backup_fresh_name_witness:
  "(exists [(Path ''d/'' ''file.ext.backup'', [7]), (Path ''d/'' ''file.ext'', [8])]
      (Path ''d/'' ''file.ext'')
    \<and> name (Path ''d/'' ''file.ext'') \<noteq> []
    \<and> CHR ''/'' \<notin> set (name (Path ''d/'' ''file.ext''))
    \<and> backup_suffix SafetyConfig = ''.backup'')
   \<and> \<not> exists [(Path ''d/'' ''file.ext.backup'', [7]), (Path ''d/'' ''file.ext'', [8])]
        (Path ''d/'' ''other.md'')
   \<and> (\<exists>k fs'. create_backup SafetyConfig
          [(Path ''d/'' ''file.ext.backup'', [7]), (Path ''d/'' ''file.ext'', [8])]
          (Path ''d/'' ''file.ext'') = Inr (fs', Some (nth_backup (Path ''d/'' ''file.ext'') k))
        \<and> \<not> exists [(Path ''d/'' ''file.ext.backup'', [7]), (Path ''d/'' ''file.ext'', [8])]
              (nth_backup (Path ''d/'' ''file.ext'') k))
   \<and> create_backup SafetyConfig
        [(Path ''d/'' ''file.ext.backup'', [7]), (Path ''d/'' ''file.ext'', [8])]
        (Path ''d/'' ''other.md'')
      = Inr ([(Path ''d/'' ''file.ext.backup'', [7]), (Path ''d/'' ''file.ext'', [8])], None)"
proof -
  let ?fs = "[(Path ''d/'' ''file.ext.backup'', [7 :: byte]), (Path ''d/'' ''file.ext'', [8])]"
  have h: "exists ?fs (Path ''d/'' ''file.ext'')
    \<and> name (Path ''d/'' ''file.ext'') \<noteq> []
    \<and> CHR ''/'' \<notin> set (name (Path ''d/'' ''file.ext''))
    \<and> backup_suffix SafetyConfig = ''.backup''"
    by (simp add: exists_def SafetyConfig_def)
  have m: "\<not> exists ?fs (Path ''d/'' ''other.md'')"
    by (simp add: exists_def)
  from create_backup_fresh_name
    [of ?fs "Path ''d/'' ''file.ext''" SafetyConfig "Path ''d/'' ''other.md''" SafetyConfig]
    h m
  show ?thesis by blast
qed

subsection \<open>The safety check\<close>

text \<open>
  Claim C1. The collision test comes first in \<open>safe_write_check\<close>: when
  \<open>detect_conversion_collision\<close> holds, the check fails at once with the collision
  reason, whatever the policy flags and the answer at the prompt are, and the file system
  is left as it was. So no policy lets the check succeed when the target exists, has the
  stem of the source and another digest.
\<close>

theorem safe_write_check_collision:
  "(detect_conversion_collision H fs source_file target_file
      \<longrightarrow> safe_write_check H cfg fs response source_file target_file
            = Inr (fs, False, ''Collision detected: '' @ str_path target_file
                                @ '' exists with different content''))
   \<and> (exists fs target_file \<and> stem source_file = stem target_file
        \<and> calculate_file_hash H fs source_file \<noteq> calculate_file_hash H fs target_file
      \<longrightarrow> (\<forall>cfg' response'. \<exists>reason.
             safe_write_check H cfg' fs response' source_file target_file
               = Inr (fs, False, reason)))"
  by (simp add: safe_write_check_def detect_conversion_collision_def)

theorem safe_write_check_collision_witness:
  "detect_conversion_collision (\<lambda>bs. replicate (length bs) (CHR ''f''))
      [(Path [] ''a.md'', [1]), (Path [] ''a.docx'', [2, 2])]
      (Path [] ''a.md'') (Path [] ''a.docx'')
   \<and> safe_write_check (\<lambda>bs. replicate (length bs) (CHR ''f''))
        \<lparr> require_confirmation = False, create_backup_opt = False, check_hash = False,
           prevent_overwrite = False, backup_suffix = ''.backup'' \<rparr>
        [(Path [] ''a.md'', [1]), (Path [] ''a.docx'', [2, 2])] None
        (Path [] ''a.md'') (Path [] ''a.docx'')
      = Inr ([(Path [] ''a.md'', [1]), (Path [] ''a.docx'', [2, 2])], False,
             ''Collision detected: a.docx exists with different content'')
   \<and> (exists [(Path [] ''a.md'', [1]), (Path [] ''a.docx'', [2, 2])] (Path [] ''a.docx'')
      \<and> stem (Path [] ''a.md'') = stem (Path [] ''a.docx'')
      \<and> calculate_file_hash (\<lambda>bs. replicate (length bs) (CHR ''f''))
           [(Path [] ''a.md'', [1]), (Path [] ''a.docx'', [2, 2])] (Path [] ''a.md'')
         \<noteq> calculate_file_hash (\<lambda>bs. replicate (length bs) (CHR ''f''))
           [(Path [] ''a.md'', [1]), (Path [] ''a.docx'', [2, 2])] (Path [] ''a.docx''))
   \<and> (\<forall>cfg' response'. \<exists>reason.
         safe_write_check (\<lambda>bs. replicate (length bs) (CHR ''f'')) cfg'
           [(Path [] ''a.md'', [1]), (Path [] ''a.docx'', [2, 2])] response'
           (Path [] ''a.md'') (Path [] ''a.docx'')
         = Inr ([(Path [] ''a.md'', [1]), (Path [] ''a.docx'', [2, 2])], False, reason))"
proof -
  let ?H = "\<lambda>bs :: byte list. replicate (length bs) (CHR ''f'')"
  let ?fs = "[(Path [] ''a.md'', [1 :: byte]), (Path [] ''a.docx'', [2, 2])]"
  have h: "exists ?fs (Path [] ''a.docx'')
      \<and> stem (Path [] ''a.md'') = stem (Path [] ''a.docx'')
      \<and> calculate_file_hash ?H ?fs (Path [] ''a.md'')
         \<noteq> calculate_file_hash ?H ?fs (Path [] ''a.docx'')"
    by (simp add: exists_def stem_def rfind_def calculate_file_hash_Some)
  then have d: "detect_conversion_collision ?H ?fs (Path [] ''a.md'') (Path [] ''a.docx'')"
    by (simp add: detect_conversion_collision_def)
  from safe_write_check_collision
    [of ?H ?fs "Path [] ''a.md''" "Path [] ''a.docx''"
        "\<lparr> require_confirmation = False, create_backup_opt = False, check_hash = False,
           prevent_overwrite = False, backup_suffix = ''.backup'' \<rparr>" None]
    h d
  show ?thesis by (simp add: str_path_def)
qed

subsection \<open>Inline markup\<close>

lemma process_run_link:
  "has_hyperlink r \<Longrightarrow> hyperlinks (metadata st) = PList hs \<Longrightarrow>
     \<exists>st' hs'. process_run st pos r = Inr (link_markup r, st', pos + length (run_text r))
        \<and> hyperlinks (metadata st') = PList hs'
        \<and> styles (metadata st') = styles (metadata st)
        \<and> current_line st' = current_line st"
  by (simp add: process_run_def Let_def py_append_def link_markup_def)

lemma process_run_plain:
  "\<not> has_hyperlink r \<Longrightarrow>
     process_run st pos r
       = Inr (emphasis_mark r @ tagged_text r @ emphasis_mark r, st, pos + length (run_text r))"
  by (simp add: process_run_def Let_def emphasis_mark_def tagged_text_def underline_open_def
      underline_close_def strike_mark_def script_open_def script_close_def)

lemma process_runs_from_pieces:
  "hyperlinks (metadata st) = PList hs \<Longrightarrow>
     \<exists>st' hs'. process_runs_from st acc pos runs
         = Inr (acc @ concat (map (\<lambda>r. if has_hyperlink r then link_markup r
                                         else emphasis_mark r @ tagged_text r @ emphasis_mark r)
                                runs), st')
        \<and> hyperlinks (metadata st') = PList hs'
        \<and> styles (metadata st') = styles (metadata st)
        \<and> current_line st' = current_line st"
proof (induction runs arbitrary: st acc pos hs)
  case Nil
  then show ?case by simp
next
  case (Cons r runs)
  show ?case
  proof (cases "has_hyperlink r")
    case False
    from Cons.IH [OF Cons.prems, of "acc @ emphasis_mark r @ tagged_text r @ emphasis_mark r"
        "pos + length (run_text r)"]
    show ?thesis using False by (simp add: process_run_plain)
  next
    case True
    from process_run_link [OF True Cons.prems, of pos]
    obtain st1 hs1 where
      1: "process_run st pos r = Inr (link_markup r, st1, pos + length (run_text r))"
      and 2: "hyperlinks (metadata st1) = PList hs1"
      and 3: "styles (metadata st1) = styles (metadata st)"
      and 4: "current_line st1 = current_line st"
      by blast
    from Cons.IH [OF 2, of "acc @ link_markup r" "pos + length (run_text r)"]
    show ?thesis using True 1 3 4 by auto
  qed
qed

lemma process_paragraph_plain:
  assumes "plain_paragraph p" and "hyperlinks (metadata st) = PList hs"
    and "styles (metadata st) = PDict ss"
  shows "\<exists>st'. process_paragraph st p
           = Inr (concat (map (\<lambda>r. if has_hyperlink r then link_markup r
                                     else emphasis_mark r @ tagged_text r @ emphasis_mark r)
                            (para_runs p)), st')"
proof -
  from process_runs_from_pieces [OF assms(2), of "[]" 0 "para_runs p"]
  obtain st1 where
    1: "process_runs st (para_runs p)
         = Inr (concat (map (\<lambda>r. if has_hyperlink r then link_markup r
                                   else emphasis_mark r @ tagged_text r @ emphasis_mark r)
                          (para_runs p)), st1)"
    and 2: "styles (metadata st1) = styles (metadata st)"
    by (auto simp: process_runs_def)
  from assms(1) have plain: "strip (para_text p) \<noteq> []"
    "\<not> startswith (style_name p) ''Heading''" "\<not> startswith (style_name p) ''Title''"
    "\<not> contains (style_name p) ''List''" "\<not> contains (style_name p) ''Bullet''"
    "\<not> contains (style_name p) ''Number''"
    by (simp_all add: plain_paragraph_def)
  show ?thesis
    unfolding process_paragraph_def
    using plain 1 2 assms(3)
    by (simp add: py_setitem_def split: option.splits alignment.splits)
qed

text \<open>
  Claim C6, as amended. The markup of a plain paragraph is the markup of its runs, one
  after the other. A run with a hyperlink is written as its link. Every other run is
  wrapped in a fixed order, from the inside to the outside: superscript or subscript
  tags innermost, then strikethrough, then underline tags, then the bold and italic
  delimiters outermost. The metadata record is the translator's own, which keeps a list
  of hyperlinks and a dict of styles.
\<close>

theorem process_paragraph_nesting:
  "plain_paragraph p \<Longrightarrow> hyperlinks (metadata st) = PList hs \<Longrightarrow>
   styles (metadata st) = PDict ss \<Longrightarrow>
     \<exists>st'. process_paragraph st p
       = Inr (concat (map (\<lambda>r. if has_hyperlink r then link_markup r
                                else emphasis_mark r @ underline_open r @ strike_mark r
                                       @ script_open r @ run_text r @ script_close r
                                       @ strike_mark r @ underline_close r @ emphasis_mark r)
                        (para_runs p)), st')"
proof -
  assume a: "plain_paragraph p" "hyperlinks (metadata st) = PList hs"
    "styles (metadata st) = PDict ss"
  have eq: "(\<lambda>r. if has_hyperlink r then link_markup r
                 else emphasis_mark r @ tagged_text r @ emphasis_mark r)
          = (\<lambda>r. if has_hyperlink r then link_markup r
                                else emphasis_mark r @ underline_open r @ strike_mark r
                                       @ script_open r @ run_text r @ script_close r
                                       @ strike_mark r @ underline_close r @ emphasis_mark r)"
    by (rule ext) (simp add: tagged_text_def)
  from process_paragraph_plain [OF a] show ?thesis
    unfolding eq .
qed

theorem process_paragraph_nesting_witness:
  "plain_paragraph
     \<lparr> style_name = ''Normal'', para_alignment = Some CENTER, para_text = ''b l'',
       para_runs =
         [\<lparr> run_text = ''b'', run_bold = True, run_italic = True, run_underline = True,
            font_strike = True, font_superscript = True, font_subscript = False,
            has_hyperlink = False \<rparr>,
          \<lparr> run_text = ''l'', run_bold = True, run_italic = False, run_underline = True,
            font_strike = False, font_superscript = False, font_subscript = False,
            has_hyperlink = True \<rparr>] \<rparr>
   \<and> hyperlinks (metadata WordToMarkdownConverter) = PList []
   \<and> styles (metadata WordToMarkdownConverter) = PDict []
   \<and> (\<exists>st'. process_paragraph WordToMarkdownConverter
         \<lparr> style_name = ''Normal'', para_alignment = Some CENTER, para_text = ''b l'',
           para_runs =
             [\<lparr> run_text = ''b'', run_bold = True, run_italic = True, run_underline = True,
                font_strike = True, font_superscript = True, font_subscript = False,
                has_hyperlink = False \<rparr>,
              \<lparr> run_text = ''l'', run_bold = True, run_italic = False, run_underline = True,
                font_strike = False, font_superscript = False, font_subscript = False,
                has_hyperlink = True \<rparr>] \<rparr>
         = Inr (''***<u>~~<sup>b</sup>~~</u>***[l](#l)'', st'))"
proof -
  let ?p = "\<lparr> style_name = ''Normal'', para_alignment = Some CENTER, para_text = ''b l'',
       para_runs =
         [\<lparr> run_text = ''b'', run_bold = True, run_italic = True, run_underline = True,
            font_strike = True, font_superscript = True, font_subscript = False,
            has_hyperlink = False \<rparr>,
          \<lparr> run_text = ''l'', run_bold = True, run_italic = False, run_underline = True,
            font_strike = False, font_superscript = False, font_subscript = False,
            has_hyperlink = True \<rparr>] \<rparr>"
  have p: "plain_paragraph ?p" by code_simp
  have h: "hyperlinks (metadata WordToMarkdownConverter) = PList []"
    by (simp add: WordToMarkdownConverter_def FormatMetadata_def)
  have s: "styles (metadata WordToMarkdownConverter) = PDict []"
    by (simp add: WordToMarkdownConverter_def FormatMetadata_def)
  have l: "link_markup \<lparr> run_text = ''l'', run_bold = True, run_italic = False,
            run_underline = True, font_strike = False, font_superscript = False,
            font_subscript = False, has_hyperlink = True \<rparr> = ''[l](#l)''"
    by code_simp
  from process_paragraph_nesting [OF p h s] p h s show ?thesis
    by (simp add: l emphasis_mark_def underline_open_def underline_close_def strike_mark_def
        script_open_def script_close_def)
qed

text \<open>
  The run that is bold and underlined gives \<open>**<u>text</u>**\<close>, bold outside underline,
  and not \<open><u>**text**</u>\<close>.
\<close>

theorem process_runs_nesting_counterexample:
  "process_runs WordToMarkdownConverter
     [\<lparr> run_text = ''text'', run_bold = True, run_italic = False, run_underline = True,
        font_strike = False, font_superscript = False, font_subscript = False,
        has_hyperlink = False \<rparr>]
     = Inr (''**<u>text</u>**'', WordToMarkdownConverter)
   \<and> process_runs WordToMarkdownConverter
     [\<lparr> run_text = ''text'', run_bold = True, run_italic = False, run_underline = True,
        font_strike = False, font_superscript = False, font_subscript = False,
        has_hyperlink = False \<rparr>]
     \<noteq> Inr (''<u>**text**</u>'', WordToMarkdownConverter)"
  by (simp add: process_runs_def process_run_def)

text \<open>
  Claim C7, as amended. In a plain paragraph, a run without a hyperlink is wrapped in
  \<open>***\<close> when it is bold and italic, in \<open>**\<close> when it is bold only, in \<open>*\<close> when it is
  italic only, whatever the runs beside it are; what is wrapped is the text with its
  tags, which is the bare text of the run when no other attribute is set. The three
  asterisks are one delimiter in the source: the test for bold and italic comes first
  and excludes the two others.
\<close>

theorem process_paragraph_emphasis:
  "plain_paragraph p \<Longrightarrow> hyperlinks (metadata st) = PList hs \<Longrightarrow>
   styles (metadata st) = PDict ss \<Longrightarrow>
     (\<exists>st'. process_paragraph st p
        = Inr (concat (map (\<lambda>r. if has_hyperlink r then link_markup r
                                 else if run_bold r \<and> run_italic r
                                      then ''***'' @ tagged_text r @ ''***''
                                 else if run_bold r then ''**'' @ tagged_text r @ ''**''
                                 else if run_italic r then ''*'' @ tagged_text r @ ''*''
                                 else tagged_text r)
                         (para_runs p)), st'))
     \<and> (\<forall>r. \<not> run_underline r \<and> \<not> font_strike r \<and> \<not> font_superscript r
              \<and> \<not> font_subscript r \<longrightarrow> tagged_text r = run_text r)"
proof -
  assume a: "plain_paragraph p" "hyperlinks (metadata st) = PList hs"
    "styles (metadata st) = PDict ss"
  have eq: "(\<lambda>r. if has_hyperlink r then link_markup r
                 else emphasis_mark r @ tagged_text r @ emphasis_mark r)
          = (\<lambda>r. if has_hyperlink r then link_markup r
                                 else if run_bold r \<and> run_italic r
                                      then ''***'' @ tagged_text r @ ''***''
                                 else if run_bold r then ''**'' @ tagged_text r @ ''**''
                                 else if run_italic r then ''*'' @ tagged_text r @ ''*''
                                 else tagged_text r)"
    by (rule ext) (simp add: emphasis_mark_def)
  have t: "\<forall>r. \<not> run_underline r \<and> \<not> font_strike r \<and> \<not> font_superscript r
              \<and> \<not> font_subscript r \<longrightarrow> tagged_text r = run_text r"
    by (simp add: tagged_text_def underline_open_def underline_close_def strike_mark_def
        script_open_def script_close_def)
  from process_paragraph_plain [OF a] t show ?thesis
    unfolding eq by blast
qed

theorem process_paragraph_emphasis_witness:
  "plain_paragraph
     \<lparr> style_name = ''Normal'', para_alignment = None, para_text = ''x y z l'',
       para_runs =
         [\<lparr> run_text = ''x'', run_bold = True, run_italic = True, run_underline = False,
            font_strike = False, font_superscript = False, font_subscript = False,
            has_hyperlink = False \<rparr>,
          \<lparr> run_text = ''y'', run_bold = True, run_italic = False, run_underline = False,
            font_strike = False, font_superscript = False, font_subscript = False,
            has_hyperlink = False \<rparr>,
          \<lparr> run_text = ''z'', run_bold = False, run_italic = True, run_underline = False,
            font_strike = False, font_superscript = False, font_subscript = False,
            has_hyperlink = False \<rparr>,
          \<lparr> run_text = ''l'', run_bold = True, run_italic = True, run_underline = False,
            font_strike = False, font_superscript = False, font_subscript = False,
            has_hyperlink = True \<rparr>] \<rparr>
   \<and> hyperlinks (metadata WordToMarkdownConverter) = PList []
   \<and> styles (metadata WordToMarkdownConverter) = PDict []
   \<and> (\<exists>st'. process_paragraph WordToMarkdownConverter
         \<lparr> style_name = ''Normal'', para_alignment = None, para_text = ''x y z l'',
           para_runs =
             [\<lparr> run_text = ''x'', run_bold = True, run_italic = True, run_underline = False,
                font_strike = False, font_superscript = False, font_subscript = False,
                has_hyperlink = False \<rparr>,
              \<lparr> run_text = ''y'', run_bold = True, run_italic = False, run_underline = False,
                font_strike = False, font_superscript = False, font_subscript = False,
                has_hyperlink = False \<rparr>,
              \<lparr> run_text = ''z'', run_bold = False, run_italic = True, run_underline = False,
                font_strike = False, font_superscript = False, font_subscript = False,
                has_hyperlink = False \<rparr>,
              \<lparr> run_text = ''l'', run_bold = True, run_italic = True, run_underline = False,
                font_strike = False, font_superscript = False, font_subscript = False,
                has_hyperlink = True \<rparr>] \<rparr>
         = Inr (''***x*****y***z*[l](#l)'', st'))"
proof -
  let ?p = "\<lparr> style_name = ''Normal'', para_alignment = None, para_text = ''x y z l'',
       para_runs =
         [\<lparr> run_text = ''x'', run_bold = True, run_italic = True, run_underline = False,
            font_strike = False, font_superscript = False, font_subscript = False,
            has_hyperlink = False \<rparr>,
          \<lparr> run_text = ''y'', run_bold = True, run_italic = False, run_underline = False,
            font_strike = False, font_superscript = False, font_subscript = False,
            has_hyperlink = False \<rparr>,
          \<lparr> run_text = ''z'', run_bold = False, run_italic = True, run_underline = False,
            font_strike = False, font_superscript = False, font_subscript = False,
            has_hyperlink = False \<rparr>,
          \<lparr> run_text = ''l'', run_bold = True, run_italic = True, run_underline = False,
            font_strike = False, font_superscript = False, font_subscript = False,
            has_hyperlink = True \<rparr>] \<rparr>"
  have p: "plain_paragraph ?p" by code_simp
  have h: "hyperlinks (metadata WordToMarkdownConverter) = PList []"
    by (simp add: WordToMarkdownConverter_def FormatMetadata_def)
  have s: "styles (metadata WordToMarkdownConverter) = PDict []"
    by (simp add: WordToMarkdownConverter_def FormatMetadata_def)
  have l: "link_markup \<lparr> run_text = ''l'', run_bold = True, run_italic = True,
            run_underline = False, font_strike = False, font_superscript = False,
            font_subscript = False, has_hyperlink = True \<rparr> = ''[l](#l)''"
    by code_simp
  from process_paragraph_emphasis [OF p h s] p h s show ?thesis
    by (simp add: l tagged_text_def underline_open_def underline_close_def strike_mark_def
        script_open_def script_close_def)
qed

text \<open>
  A bold and italic run with a hyperlink inside is written as a link, without asterisks.
\<close>

theorem process_runs_emphasis_counterexample:
  "process_runs WordToMarkdownConverter
     [\<lparr> run_text = ''x'', run_bold = True, run_italic = True, run_underline = False,
        font_strike = False, font_superscript = False, font_subscript = False,
        has_hyperlink = True \<rparr>]
     = Inr (''[x](#x)'',
            WordToMarkdownConverter
              \<lparr> metadata := FormatMetadata
                   \<lparr> hyperlinks := PList [PDict [(PStr ''start'', PInt 0), (PStr ''end'', PInt 1),
                                                 (PStr ''line'', PInt 0)]] \<rparr> \<rparr>)
   \<and> ''[x](#x)'' \<noteq> ''***x***''"
  by (simp add: process_runs_def process_run_def WordToMarkdownConverter_def FormatMetadata_def
      py_append_def lower_def lower_char_def replace_char_def)

subsection \<open>Tables, header boxes and the metadata record\<close>

text \<open>
  Claim C4. The document with the one table gives the three lines of the claim. Fed to
  \<open>_build_document\<close>, the three lines give two tables, not one: the 2 by 2 table with
  the cell texts of the original, and a second table of one row from the lines
  \<open>| --- | --- |\<close> and \<open>| 1 | 2 |\<close>, which the loop visits again after the first table.
\<close>

theorem table_round_trip_two_tables:
  "extract_content_and_metadata WordToMarkdownConverter
     \<lparr> doc_paragraphs = [], doc_tables = [[[''A'', ''B''], [''1'', ''2'']]] \<rparr>
     = Inr (''| A | B |'' @ [CHR 0x0A] @ ''| --- | --- |'' @ [CHR 0x0A] @ ''| 1 | 2 |'',
            \<lparr> metadata = FormatMetadata
                 \<lparr> tables := PList [PDict [(PStr ''line'', PInt 0), (PStr ''rows'', PInt 2),
                                             (PStr ''cols'', PInt 2),
                                             (PStr ''data'',
                                                PList [PList [PStr ''A'', PStr ''B''],
                                                       PList [PStr ''1'', PStr ''2'']])]] \<rparr>,
              current_line = 2 \<rparr>)
   \<and> build_document ConversionConfig Document
       (''| A | B |'' @ [CHR 0x0A] @ ''| --- | --- |'' @ [CHR 0x0A] @ ''| 1 | 2 |'') FormatMetadata
     = Inr \<lparr> body =
              [Table \<lparr> t_cells = [[\<lparr> cell_text = ''A'', cell_bold = True \<rparr>,
                                    \<lparr> cell_text = ''B'', cell_bold = True \<rparr>],
                                   [\<lparr> cell_text = ''1'', cell_bold = False \<rparr>,
                                    \<lparr> cell_text = ''2'', cell_bold = False \<rparr>]],
                       t_style = ''Table Grid'', t_autofit = Some True \<rparr>,
               Table \<lparr> t_cells = [[\<lparr> cell_text = ''1'', cell_bold = True \<rparr>,
                                    \<lparr> cell_text = ''2'', cell_bold = True \<rparr>]],
                       t_style = ''Table Grid'', t_autofit = Some True \<rparr>],
            style_fonts = [] \<rparr>"
  by code_simp

text \<open>
  Claim C5. The three lines give three paragraphs: a divider, the plain paragraph
  \<open>Section Title\<close>, and a divider. There is no bordered heading, and no line is
  consumed.
\<close>

theorem header_box_three_paragraphs:
  "build_document ConversionConfig Document
     (''=========================''  @ [CHR 0x0A] @ ''Section Title'' @ [CHR 0x0A]
        @ ''========================='') FormatMetadata
   = Inr \<lparr> body =
            [Paragraph
               \<lparr> p_style = ''Normal'',
                 p_runs = [\<lparr> r_text = replicate 50 (CHR ''_''), r_bold = False, r_italic = False,
                             r_underline = False, r_font_name = None,
                             r_font_size = Some (Pt 8), r_color = Some (128, 128, 128) \<rparr>],
                 p_alignment = Some CENTER, p_space_before = Some (Pt 3),
                 p_space_after = Some (Pt 3), p_left_indent = None, p_right_indent = None,
                 p_border_top = None, p_border_bottom = None \<rparr>,
             Paragraph
               \<lparr> p_style = ''Normal'',
                 p_runs = [\<lparr> r_text = ''Section Title'', r_bold = False, r_italic = False,
                             r_underline = False, r_font_name = None, r_font_size = None,
                             r_color = None \<rparr>],
                 p_alignment = None, p_space_before = None, p_space_after = None,
                 p_left_indent = None, p_right_indent = None,
                 p_border_top = None, p_border_bottom = None \<rparr>,
             Paragraph
               \<lparr> p_style = ''Normal'',
                 p_runs = [\<lparr> r_text = replicate 50 (CHR ''_''), r_bold = False, r_italic = False,
                             r_underline = False, r_font_name = None,
                             r_font_size = Some (Pt 8), r_color = Some (128, 128, 128) \<rparr>],
                 p_alignment = Some CENTER, p_space_before = Some (Pt 3),
                 p_space_after = Some (Pt 3), p_left_indent = None, p_right_indent = None,
                 p_border_top = None, p_border_bottom = None \<rparr>],
          style_fonts = [] \<rparr>"
  by code_simp

text \<open>
  The reason: a line that opens a header box is a horizontal rule, and the loop tests for
  the rule first. So the header box is never built.
\<close>

lemma header_box_is_rule:
  "is_header_box_divider line rest \<Longrightarrow> is_horizontal_rule line"
  by (auto simp: is_header_box_divider_def is_horizontal_rule_def Let_def split: if_splits)

text \<open>
  Claim C10. The document that \<open>_build_document\<close> builds does not depend on the
  metadata record: for the same configuration, document and content, any two records
  give the same result.
\<close>

theorem build_document_ignores_metadata:
  "build_document cfg doc content m1 = build_document cfg doc content m2"
  by (simp add: build_document_def)

subsection \<open>Front matter and metadata that do not decode\<close>

text \<open>
  What holds of claim C9: without a metadata block, and with a block that the JSON decoder
  rejects, \<open>_extract_metadata\<close> returns the empty record; front matter that the YAML
  decoder rejects counts as absent; and the conversion goes on to build the document from
  the content.
\<close>

lemma extract_metadata_absent:
  "search_metadata content = None \<Longrightarrow> extract_metadata json_loads content = Inr FormatMetadata"
  by (simp add: extract_metadata_def)

lemma extract_metadata_undecodable:
  "search_metadata content = Some g \<Longrightarrow> json_loads g = None \<Longrightarrow>
     extract_metadata json_loads content = Inr FormatMetadata"
  by (simp add: extract_metadata_def)

lemma extract_frontmatter_config_undecodable:
  "\<forall>s. yaml_load s = None \<Longrightarrow> extract_frontmatter_config yaml_load content = PNone"
  by (simp add: extract_frontmatter_config_def split: option.splits)

lemma md_to_document_proceeds:
  assumes "\<not> truthy (extract_frontmatter_config yaml_load content)"
    and "search_metadata content = None
         \<or> (\<exists>g. search_metadata content = Some g \<and> json_loads g = None)"
  shows "md_to_document yaml_load json_loads assign cfg doc content
           = build_document cfg doc (strip_metadata content) FormatMetadata"
proof -
  from assms(2) have "extract_metadata json_loads content = Inr FormatMetadata"
    by (auto simp: extract_metadata_absent extract_metadata_undecodable)
  with assms(1) show ?thesis
    by (simp add: md_to_document_def)
qed

lemma FormatMetadata_kwargs_not_dict:
  "\<forall>kvs. v \<noteq> PDict kvs \<Longrightarrow> FormatMetadata_kwargs v = Inl TypeError"
  by (cases v) (simp_all add: FormatMetadata_kwargs_def)

lemma FormatMetadata_kwargs_unknown_key:
  "set_field m k x = None \<Longrightarrow> set_fields m ((PStr k, x) # kvs) = Inl TypeError"
  by simp

text \<open>
  Claim C9. A metadata block whose text decodes to something that is not a mapping is
  fatal: \<open>_extract_metadata\<close> raises \<open>TypeError\<close>, which only the handler of
  \<open>convert_md_to_docx\<close> catches, so no document is built.
\<close>

theorem malformed_metadata_raises:
  "\<not> truthy (extract_frontmatter_config yaml_load content) \<Longrightarrow>
   search_metadata content = Some g \<Longrightarrow> json_loads g = Some v \<Longrightarrow> \<forall>kvs. v \<noteq> PDict kvs \<Longrightarrow>
     extract_metadata json_loads content = Inl TypeError
     \<and> md_to_document yaml_load json_loads assign cfg doc content = Inl TypeError"
  by (simp add: extract_metadata_def md_to_document_def FormatMetadata_kwargs_not_dict)

theorem malformed_metadata_raises_witness:
  "\<not> truthy (extract_frontmatter_config (\<lambda>s. None)
        (''Hello'' @ [CHR 0x0A, CHR 0x0A] @ ''<!-- WORD_CONVERSION_METADATA'' @ [CHR 0x0A]
           @ ''[]'' @ [CHR 0x0A] @ ''-->'' @ [CHR 0x0A]))
   \<and> search_metadata
        (''Hello'' @ [CHR 0x0A, CHR 0x0A] @ ''<!-- WORD_CONVERSION_METADATA'' @ [CHR 0x0A]
           @ ''[]'' @ [CHR 0x0A] @ ''-->'' @ [CHR 0x0A]) = Some ''[]''
   \<and> (\<lambda>s. if s = ''[]'' then Some (PList []) else None) ''[]'' = Some (PList [])
   \<and> (\<forall>kvs. PList [] \<noteq> PDict kvs)
   \<and> extract_metadata (\<lambda>s. if s = ''[]'' then Some (PList []) else None)
        (''Hello'' @ [CHR 0x0A, CHR 0x0A] @ ''<!-- WORD_CONVERSION_METADATA'' @ [CHR 0x0A]
           @ ''[]'' @ [CHR 0x0A] @ ''-->'' @ [CHR 0x0A]) = Inl TypeError
   \<and> md_to_document (\<lambda>s. None) (\<lambda>s. if s = ''[]'' then Some (PList []) else None)
        (\<lambda>k v c. Inr c) ConversionConfig Document
        (''Hello'' @ [CHR 0x0A, CHR 0x0A] @ ''<!-- WORD_CONVERSION_METADATA'' @ [CHR 0x0A]
           @ ''[]'' @ [CHR 0x0A] @ ''-->'' @ [CHR 0x0A]) = Inl TypeError"
proof -
  let ?content = "''Hello'' @ [CHR 0x0A, CHR 0x0A] @ ''<!-- WORD_CONVERSION_METADATA''
                    @ [CHR 0x0A] @ ''[]'' @ [CHR 0x0A] @ ''-->'' @ [CHR 0x0A]"
  let ?json = "\<lambda>s. if s = ''[]'' then Some (PList []) else None"
  have f: "\<not> truthy (extract_frontmatter_config (\<lambda>s. None) ?content)"
    by (simp add: extract_frontmatter_config_def startswith_def)
  have s: "search_metadata ?content = Some ''[]''"
    by (simp add: lit_def startswith_def metadata_open_def metadata_close_def)
  have j: "?json ''[]'' = Some (PList [])" by simp
  have n: "\<forall>kvs. PList [] \<noteq> PDict kvs" by simp
  from malformed_metadata_raises
    [of "\<lambda>s. None" ?content "''[]''" ?json "PList []" "\<lambda>k v c. Inr c" ConversionConfig Document]
    f s j n
  show ?thesis by blast
qed

text \<open>
  The same for front matter that decodes to a value that is not a mapping, such as the
  text between two rule lines at the top of a file: \<open>AttributeError\<close>.
\<close>

lemma frontmatter_not_a_mapping_raises:
  "truthy (extract_frontmatter_config yaml_load content) \<Longrightarrow>
   \<forall>kvs. extract_frontmatter_config yaml_load content \<noteq> PDict kvs \<Longrightarrow>
     md_to_document yaml_load json_loads assign cfg doc content = Inl AttributeError"
  by (cases "extract_frontmatter_config yaml_load content")
     (simp_all add: md_to_document_def update_config_from_dict_def)

lemma frontmatter_rule_lines_example:
  "md_to_document (\<lambda>s. if s = ''Title'' then Some (PStr ''Title'') else None) json_loads assign
     ConversionConfig Document
     (''---'' @ [CHR 0x0A] @ ''Title'' @ [CHR 0x0A] @ ''---'' @ [CHR 0x0A] @ ''body'')
   = Inl AttributeError"
  by (rule frontmatter_not_a_mapping_raises)
     (simp_all add: extract_frontmatter_config_def startswith_def find_from_def)

end
